theory Spec2Isabelle
  imports Main
begin

section \<open>JavaScript values\<close>

text \<open>
  The values that travel through \<^verbatim>\<open>server.js\<close>: request bodies as the body parsers
  deliver them, and the plain data the wrapped library hands back. The facade observes
  two things of a number: whether it is zero, and the text \<^verbatim>\<open>String\<close> gives it.
  \<open>JNum n\<close> is the number \<open>n\<close> for a safe integer (of magnitude at most \<open>2 ^ 53\<close>),
  which JavaScript holds exactly and prints in plain decimal; \<open>JDouble t\<close> is any other
  number (a fraction, or a magnitude beyond the safe integers), none of them zero,
  given by the text \<open>t\<close> that \<^verbatim>\<open>String\<close> gives it (such as \<^verbatim>\<open>1e+21\<close> or \<^verbatim>\<open>0.5\<close>).
  An object is the list of its own enumerable properties; the first entry for a name
  is the one a property read sees.
\<close>

datatype jsval =
    JUndefined
  | JNull
  | JBool bool
  | JNum int
  | JDouble string
  | JStr string
  | JArr "jsval list"
  | JObj "(string \<times> jsval) list"

text \<open>JavaScript truthiness, as \<^verbatim>\<open>!x\<close> and \<^verbatim>\<open>if (x)\<close> read a value.\<close>

fun truthy :: "jsval \<Rightarrow> bool" where
  "truthy JUndefined = False"
| "truthy JNull = False"
| "truthy (JBool b) = b"
| "truthy (JNum n) = (n \<noteq> 0)"
| "truthy (JDouble t) = True"
| "truthy (JStr s) = (s \<noteq> [])"
| "truthy (JArr xs) = True"
| "truthy (JObj ps) = True"

text \<open>\<^verbatim>\<open>Array.isArray(x)\<close>.\<close>

fun isArray :: "jsval \<Rightarrow> bool" where
  "isArray (JArr xs) = True"
| "isArray v = False"

text \<open>\<^verbatim>\<open>typeof x === 'string'\<close>.\<close>

fun isString :: "jsval \<Rightarrow> bool" where
  "isString (JStr s) = True"
| "isString v = False"

definition nullish :: "jsval \<Rightarrow> bool" where
  "nullish v = (v = JUndefined \<or> v = JNull)"

text \<open>
  A property read \<^verbatim>\<open>v.k\<close> for the property names the handlers use (none of them is
  an array index or an inherited property). Reading a property of \<^verbatim>\<open>undefined\<close> or
  \<^verbatim>\<open>null\<close> raises a TypeError; \<open>getprop\<close> is the read on every other value, and
  \<open>read_member\<close> the read with the error.
\<close>

fun getprop :: "jsval \<Rightarrow> string \<Rightarrow> jsval" where
  "getprop (JObj ps) k = (case map_of ps k of None \<Rightarrow> JUndefined | Some v \<Rightarrow> v)"
| "getprop (JArr xs) k = (if k = ''length'' then JNum (int (length xs)) else JUndefined)"
| "getprop (JStr s) k = (if k = ''length'' then JNum (int (length s)) else JUndefined)"
| "getprop v k = JUndefined"

text \<open>
  The messages of the TypeErrors, in the wording of V8: \<open>k\<close> is the property read,
  \<open>callee\<close> the text of the expression called.
\<close>

definition quoted :: "string \<Rightarrow> string" where
  "quoted k = [CHR 0x27] @ k @ [CHR 0x27]"

definition cannot_read :: "jsval \<Rightarrow> string \<Rightarrow> string" where
  "cannot_read v k =
     ''Cannot read properties of '' @ (if v = JNull then ''null'' else ''undefined'') @
     '' (reading '' @ quoted k @ '')''"

definition not_a_function :: "string \<Rightarrow> string" where
  "not_a_function callee = callee @ '' is not a function''"

definition read_member :: "jsval \<Rightarrow> string \<Rightarrow> string + jsval" where
  "read_member v k = (if nullish v then Inl (cannot_read v k) else Inr (getprop v k))"

text \<open>A destructuring default, \<^verbatim>\<open>const { k = d } = obj\<close>: only \<^verbatim>\<open>undefined\<close> takes it.\<close>

definition default_to :: "jsval \<Rightarrow> jsval \<Rightarrow> jsval" where
  "default_to v d = (if v = JUndefined then d else v)"

subsection \<open>Strings\<close>

text \<open>\<^verbatim>\<open>s.startsWith(p)\<close> and \<^verbatim>\<open>s.includes(p)\<close> on strings.\<close>

fun startsWith :: "string \<Rightarrow> string \<Rightarrow> bool" where
  "startsWith s [] = True"
| "startsWith [] (p # ps) = False"
| "startsWith (c # cs) (p # ps) = (c = p \<and> startsWith cs ps)"

fun str_includes :: "string \<Rightarrow> string \<Rightarrow> bool" where
  "str_includes [] p = (p = [])"
| "str_includes (c # cs) p = (startsWith (c # cs) p \<or> str_includes cs p)"

text \<open>Decimal printing of a safe integer, as \<^verbatim>\<open>String(n)\<close> prints it.\<close>

definition digit_char :: "nat \<Rightarrow> char" where
  "digit_char d = char_of (48 + d)"

fun show_nat :: "nat \<Rightarrow> string" where
  "show_nat n = (if n < 10 then [digit_char n] else show_nat (n div 10) @ [digit_char (n mod 10)])"

declare show_nat.simps [simp del]

definition show_int :: "int \<Rightarrow> string" where
  "show_int i = (if i < 0 then CHR ''-'' # show_nat (nat (- i)) else show_nat (nat i))"

fun join_comma :: "string list \<Rightarrow> string" where
  "join_comma [] = []"
| "join_comma [s] = s"
| "join_comma (s # t # ss) = s @ '','' @ join_comma (t # ss)"

text \<open>
  \<^verbatim>\<open>String(v)\<close>, which a template literal applies: an array prints its elements joined
  by commas, with \<^verbatim>\<open>undefined\<close> and \<^verbatim>\<open>null\<close> elements printed as nothing.
\<close>

fun js_toString :: "jsval \<Rightarrow> string" where
  "js_toString JUndefined = ''undefined''"
| "js_toString JNull = ''null''"
| "js_toString (JBool b) = (if b then ''true'' else ''false'')"
| "js_toString (JNum n) = show_int n"
| "js_toString (JDouble t) = t"
| "js_toString (JStr s) = s"
| "js_toString (JArr xs) =
     join_comma (map (\<lambda>x. if x = JUndefined \<or> x = JNull then [] else js_toString x) xs)"
| "js_toString (JObj ps) = ''[object Object]''"

subsection \<open>Chat-id normalisation\<close>

text \<open>
  \<^verbatim>\<open>to.includes('@c.us') ? to : to + '@c.us'\<close> (the source writes the sum as a
  template literal) on a string (lines 101, 209, 225, 297,
  330, 480, 497, 530, 726, 762, 954).
\<close>

definition normalize :: "string \<Rightarrow> string" where
  "normalize s = (if str_includes s ''@c.us'' then s else s @ ''@c.us'')"

text \<open>
  The same expression on any value held by the variable \<open>var\<close>: an array has an
  \<^verbatim>\<open>includes\<close> of its own (element equality), \<^verbatim>\<open>undefined\<close> and \<^verbatim>\<open>null\<close> have no
  properties, and every other value has no \<^verbatim>\<open>includes\<close> method.
\<close>

fun chat_id :: "string \<Rightarrow> jsval \<Rightarrow> string + jsval" where
  "chat_id var (JStr s) = Inr (JStr (normalize s))"
| "chat_id var (JArr xs) =
     Inr (if JStr ''@c.us'' \<in> set xs then JArr xs
          else JStr (js_toString (JArr xs) @ ''@c.us''))"
| "chat_id var JUndefined = Inl (cannot_read JUndefined ''includes'')"
| "chat_id var JNull = Inl (cannot_read JNull ''includes'')"
| "chat_id var v = Inl (not_a_function (var @ ''.includes''))"

text \<open>
  \<^verbatim>\<open>xs.map(f)\<close> where \<open>f\<close> may raise: the first exception ends the loop.
\<close>

fun map_throw :: "('a \<Rightarrow> string + 'b) \<Rightarrow> 'a list \<Rightarrow> string + 'b list" where
  "map_throw f [] = Inr []"
| "map_throw f (x # xs) =
     (case f x of
        Inl m \<Rightarrow> Inl m
      | Inr y \<Rightarrow> (case map_throw f xs of Inl m \<Rightarrow> Inl m | Inr ys \<Rightarrow> Inr (y # ys)))"

text \<open>
  \<^verbatim>\<open>v.map(f)\<close> on any value, \<open>var\<close> being the text of the expression \<^verbatim>\<open>v\<close>: only an
  array has \<^verbatim>\<open>map\<close>.
\<close>

definition array_map ::
  "string \<Rightarrow> (jsval \<Rightarrow> string + jsval) \<Rightarrow> jsval \<Rightarrow> string + jsval list" where
  "array_map var f v =
     (case v of
        JArr xs \<Rightarrow> map_throw f xs
      | JUndefined \<Rightarrow> Inl (cannot_read v ''map'')
      | JNull \<Rightarrow> Inl (cannot_read v ''map'')
      | _ \<Rightarrow> Inl (not_a_function (var @ ''.map'')))"

section \<open>The wrapped library as an environment\<close>

text \<open>
  The library behind \<^verbatim>\<open>require('./index')\<close> is not part of the facade; it is a
  parameter of the model. Every interaction with it (and with the file system, in
  \<^verbatim>\<open>/send-media\<close>) is a \<open>libcall\<close>, and the environment answers each call, given the
  calls made before it, with a value or with a thrown error's message.
  Handles of constructed clients are numbered in the order of construction.
\<close>

datatype target =
    OnClient nat
  | OnObject jsval
  | Fs

datatype libcall =
    Method target string "jsval list"
  | ReadProp target string
  | New string "jsval list"

type_synonym lib = "libcall list \<Rightarrow> libcall \<Rightarrow> string + jsval"


text \<open>The client handle a call is addressed to, if it is addressed to one.\<close>

fun client_of :: "libcall \<Rightarrow> nat option" where
  "client_of (Method (OnClient h) name args) = Some h"
| "client_of (ReadProp (OnClient h) name) = Some h"
| "client_of c = None"

subsection \<open>Handler bodies\<close>

text \<open>
  The body of a handler is a sequence of awaited calls, each continuing with the
  call's value, that ends by sending a response (\<open>Done\<close>) or by raising (\<open>Throw\<close>).
  \<open>run\<close> executes a body against the environment and keeps the trace of the calls
  made: a call that throws ends the body with that exception, as \<^verbatim>\<open>await\<close> does.
\<close>

datatype 'a prog =
    Done 'a
  | Throw string
  | Call libcall "jsval \<Rightarrow> 'a prog"

primrec run :: "'a prog \<Rightarrow> lib \<Rightarrow> libcall list \<Rightarrow> (string + 'a) \<times> libcall list" where
  "run (Done r) lib tr = (Inr r, tr)"
| "run (Throw m) lib tr = (Inl m, tr)"
| "run (Call c k) lib tr =
     (case lib tr c of
        Inl m \<Rightarrow> (Inl m, tr @ [c])
      | Inr v \<Rightarrow> run (k v) lib (tr @ [c]))"

text \<open>A facade-side computation that may raise, followed by the rest of the body.\<close>

definition lift :: "string + 'b \<Rightarrow> ('b \<Rightarrow> 'a prog) \<Rightarrow> 'a prog" where
  "lift r k = (case r of Inl m \<Rightarrow> Throw m | Inr v \<Rightarrow> k v)"

definition get :: "jsval \<Rightarrow> string \<Rightarrow> (jsval \<Rightarrow> 'a prog) \<Rightarrow> 'a prog" where
  "get v k cont = lift (read_member v k) cont"

text \<open>
  \<^verbatim>\<open>const { a, b } = req.body\<close>: destructuring \<^verbatim>\<open>undefined\<close> or \<^verbatim>\<open>null\<close> raises
  (the message names the first property, \<open>a\<close>); the fields are then read with
  \<open>getprop\<close>.
\<close>

definition destructure :: "jsval \<Rightarrow> string \<Rightarrow> 'a prog \<Rightarrow> 'a prog" where
  "destructure b a p =
     (if nullish b
      then Throw (''Cannot destructure property '' @ quoted a @ '' of '' @
                  quoted ''req.body'' @ '' as it is '' @ js_toString b @ ''.'')
      else p)"

text \<open>
  \<^verbatim>\<open>const { a = d } = req.body\<close>, where the first property has a default: the engine
  reads the property before it can apply the default, and on \<^verbatim>\<open>undefined\<close> or
  \<^verbatim>\<open>null\<close> it is that read which raises.
\<close>

definition destructure_default :: "jsval \<Rightarrow> string \<Rightarrow> 'a prog \<Rightarrow> 'a prog" where
  "destructure_default b a p = (if nullish b then Throw (cannot_read b a) else p)"

text \<open>
  \<^verbatim>\<open>await client.m(args)\<close> on the global \<^verbatim>\<open>client\<close> variable (\<^verbatim>\<open>undefined\<close> until the
  first construction), and \<^verbatim>\<open>await obj.m(args)\<close> on an object the library returned.
  The model holds the data of a library object, not its methods: an entry
  \<open>Method (OnObject obj) m args\<close> of the trace is the evaluation of the call expression
  \<^verbatim>\<open>obj.m(args)\<close>, and whether \<open>obj\<close> has a method \<open>m\<close> is the environment's to
  answer. Where it has none, nothing is invoked and the answer is the engine's
  TypeError (\<open>Inl\<close> of a message such as \<^verbatim>\<open>group.addParticipants is not a function\<close>),
  which ends the body like any other exception.
\<close>

definition client_call :: "nat option \<Rightarrow> string \<Rightarrow> jsval list \<Rightarrow> (jsval \<Rightarrow> 'a prog) \<Rightarrow> 'a prog" where
  "client_call client name args k =
     (case client of
        None \<Rightarrow> Throw (cannot_read JUndefined name)
      | Some h \<Rightarrow> Call (Method (OnClient h) name args) k)"

definition client_read :: "nat option \<Rightarrow> string \<Rightarrow> (jsval \<Rightarrow> 'a prog) \<Rightarrow> 'a prog" where
  "client_read client name k =
     (case client of
        None \<Rightarrow> Throw (cannot_read JUndefined name)
      | Some h \<Rightarrow> Call (ReadProp (OnClient h) name) k)"

definition method_call :: "jsval \<Rightarrow> string \<Rightarrow> jsval list \<Rightarrow> (jsval \<Rightarrow> 'a prog) \<Rightarrow> 'a prog" where
  "method_call obj name args k =
     (if nullish obj then Throw (cannot_read obj name)
      else Call (Method (OnObject obj) name args) k)"

subsection \<open>Requests and responses\<close>

text \<open>
  A request as a route sees it, after \<^verbatim>\<open>express.json()\<close> and
  \<^verbatim>\<open>express.urlencoded()\<close> (lines 9-10) have parsed the body. \<open>upload\<close> is the
  outcome of multer's \<^verbatim>\<open>upload.single('media')\<close> on the request (an error, or
  \<^verbatim>\<open>req.file\<close>, absent when no file came); \<open>now\<close> is the clock reading as
  \<^verbatim>\<open>toISOString\<close> prints it.
\<close>

record uploaded =
  path :: string
  mimetype :: string
  originalname :: string

record request =
  body :: jsval
  params :: "(string \<times> string) list"
  query :: "(string \<times> jsval) list"
  upload :: "string + uploaded option"
  now :: string

text \<open>
  A response: the status code and the value given to \<^verbatim>\<open>res.json\<close>
  (\<^verbatim>\<open>res.json(v)\<close> alone answers 200).
\<close>

record response =
  status :: nat
  json :: jsval

definition res_status_json :: "nat \<Rightarrow> jsval \<Rightarrow> response" where
  "res_status_json code v = \<lparr>status = code, json = v\<rparr>"

definition res_json :: "jsval \<Rightarrow> response" where
  "res_json v = res_status_json 200 v"

definition error_body :: "string \<Rightarrow> jsval" where
  "error_body m = JObj [(''error'', JStr m)]"

definition success :: jsval where
  "success = JObj [(''success'', JBool True)]"

definition param :: "request \<Rightarrow> string \<Rightarrow> jsval" where
  "param req k = (case map_of (params req) k of None \<Rightarrow> JUndefined | Some s \<Rightarrow> JStr s)"

text \<open>
  The values of JavaScript built-ins that the model does not compute (date arithmetic,
  \<^verbatim>\<open>parseInt\<close>, base64 encoding) are kept symbolic: the name of the built-in with its
  arguments. The handlers only pass them on to the library.
\<close>

definition symbolic :: "string \<Rightarrow> jsval list \<Rightarrow> jsval" where
  "symbolic f args = JObj [(f, JArr args)]"

text \<open>The error-handling middleware (lines 962-966), where an uncaught exception ends.\<close>

definition error_middleware :: "string \<Rightarrow> response" where
  "error_middleware m = res_status_json 500 (error_body ''Internal server error'')"

section \<open>The facade\<close>

subsection \<open>Global state and client lifecycle\<close>

text \<open>
  The two globals of lines 16-17, and the number of clients constructed so far (the
  next handle). \<^verbatim>\<open>client\<close> is \<^verbatim>\<open>undefined\<close> (\<open>None\<close>) until the first construction.
\<close>

record state =
  client :: "nat option"
  clientReady :: bool
  constructed :: nat

definition initial :: state where
  "initial = \<lparr>client = None, clientReady = False, constructed = 0\<rparr>"

text \<open>The events \<^verbatim>\<open>initializeClient\<close> registers a listener for (lines 30-65).\<close>

datatype event =
    Loading_screen
  | Qr
  | Code
  | Authenticated
  | Auth_failure
  | Ready
  | Message
  | Disconnected

definition event_name :: "event \<Rightarrow> string" where
  "event_name e =
     (case e of
        Loading_screen \<Rightarrow> ''loading_screen''
      | Qr \<Rightarrow> ''qr''
      | Code \<Rightarrow> ''code''
      | Authenticated \<Rightarrow> ''authenticated''
      | Auth_failure \<Rightarrow> ''auth_failure''
      | Ready \<Rightarrow> ''ready''
      | Message \<Rightarrow> ''message''
      | Disconnected \<Rightarrow> ''disconnected'')"

text \<open>
  \<^verbatim>\<open>initializeClient\<close> (lines 20-66). The two constructors may raise, and then the
  global is not assigned. After the assignment, \<^verbatim>\<open>client.initialize()\<close> is started
  and not awaited, and the eight listeners are registered; the model records these
  calls in the trace.
\<close>

definition client_options :: "jsval \<Rightarrow> jsval" where
  "client_options auth =
     JObj [(''authStrategy'', auth), (''puppeteer'', JObj [(''headless'', JBool False)])]"

definition construct_client :: "jsval prog" where
  "construct_client =
     Call (New ''LocalAuth'' []) (\<lambda>auth.
     Call (New ''Client'' [client_options auth]) (\<lambda>c.
     Done c))"

definition wiring :: "nat \<Rightarrow> libcall list" where
  "wiring h =
     Method (OnClient h) ''initialize'' [] #
     map (\<lambda>e. Method (OnClient h) ''on'' [JStr (event_name e)])
       [Loading_screen, Qr, Code, Authenticated, Auth_failure, Ready, Message, Disconnected]"

definition initializeClient :: "state \<Rightarrow> lib \<Rightarrow> (string + unit) \<times> state \<times> libcall list" where
  "initializeClient s lib =
     (case run construct_client lib [] of
        (Inl m, tr) \<Rightarrow> (Inl m, s, tr)
      | (Inr c, tr) \<Rightarrow>
          (Inr (),
           s\<lparr>client := Some (constructed s), constructed := Suc (constructed s)\<rparr>,
           tr @ wiring (constructed s)))"

text \<open>
  The listeners. Only three of them write the flag. The \<^verbatim>\<open>ready\<close> listener goes on
  to await \<^verbatim>\<open>client.getWWebVersion()\<close> on the global client; an exception there is
  an unhandled rejection, returned as the third component. The payloads of the events
  are only logged and are left out.
\<close>

definition on_event :: "state \<Rightarrow> lib \<Rightarrow> event \<Rightarrow> state \<times> libcall list \<times> string option" where
  "on_event s lib e =
     (case e of
        Auth_failure \<Rightarrow> (s\<lparr>clientReady := False\<rparr>, [], None)
      | Disconnected \<Rightarrow> (s\<lparr>clientReady := False\<rparr>, [], None)
      | Ready \<Rightarrow>
          (case run (client_call (client s) ''getWWebVersion'' [] (\<lambda>v. Done v)) lib [] of
             (Inl m, tr) \<Rightarrow> (s\<lparr>clientReady := True\<rparr>, tr, Some m)
           | (Inr v, tr) \<Rightarrow> (s\<lparr>clientReady := True\<rparr>, tr, None))
      | _ \<Rightarrow> (s, [], None))"

subsection \<open>Middleware\<close>

text \<open>
  What handling a request comes to: the response, the facade's state afterwards, and
  the calls made on the environment.
\<close>

type_synonym outcome = "response \<times> state \<times> libcall list"

text \<open>\<^verbatim>\<open>checkClientReady\<close> (lines 69-74); \<open>next\<close> is the rest of the route's chain.\<close>

definition checkClientReady :: "state \<Rightarrow> outcome \<Rightarrow> outcome" where
  "checkClientReady s next =
     (if \<not> clientReady s
      then (res_status_json 503 (error_body ''WhatsApp client not ready''), s, [])
      else next)"

text \<open>
  \<^verbatim>\<open>upload.single('media')\<close>: a multer error goes to the error-handling middleware;
  otherwise \<^verbatim>\<open>req.file\<close> is set (or left \<^verbatim>\<open>undefined\<close> when no file came) and the
  chain continues.
\<close>

definition req_file :: "request \<Rightarrow> uploaded option" where
  "req_file req = (case upload req of Inl m \<Rightarrow> None | Inr f \<Rightarrow> f)"

definition upload_single :: "state \<Rightarrow> request \<Rightarrow> outcome \<Rightarrow> outcome" where
  "upload_single s req next =
     (case upload req of
        Inl m \<Rightarrow> (error_middleware m, s, [])
      | Inr f \<Rightarrow> next)"

text \<open>
  The \<^verbatim>\<open>try { ... } catch (error) { res.status(500).json({ error: error.message }) }\<close>
  around the body of every guarded handler.
\<close>

definition try_catch :: "state \<Rightarrow> lib \<Rightarrow> response prog \<Rightarrow> outcome" where
  "try_catch s lib p =
     (case run p lib [] of
        (Inl m, tr) \<Rightarrow> (res_status_json 500 (error_body m), s, tr)
      | (Inr r, tr) \<Rightarrow> (r, s, tr))"

subsection \<open>Handlers, lines 76-287\<close>

definition get_status :: "state \<Rightarrow> request \<Rightarrow> response" where
  "get_status s req =
     res_json (JObj [(''ready'', JBool (clientReady s)), (''timestamp'', JStr (now req))])"

definition post_initialize :: "state \<Rightarrow> lib \<Rightarrow> outcome" where
  "post_initialize s lib =
     (if clientReady s
      then (res_json (JObj [(''message'', JStr ''Client already initialized'')]), s, [])
      else (case initializeClient s lib of
              (Inl m, s', tr) \<Rightarrow> (error_middleware m, s', tr)
            | (Inr u, s', tr) \<Rightarrow>
                (res_json (JObj [(''message'', JStr ''Client initialization started'')]), s', tr)))"

definition send_message :: "state \<Rightarrow> request \<Rightarrow> response prog" where
  "send_message s req =
     destructure (body req) ''to''
       (let to = getprop (body req) ''to''; message = getprop (body req) ''message'' in
        if \<not> truthy to \<or> \<not> truthy message
        then Done (res_status_json 400 (error_body ''to and message are required''))
        else lift (chat_id ''to'' to) (\<lambda>chatId.
             client_call (client s) ''sendMessage'' [chatId, message] (\<lambda>result.
             get result ''id'' (\<lambda>rid.
             get rid ''_serialized'' (\<lambda>serialized.
             Done (res_json (JObj [(''success'', JBool True), (''messageId'', serialized)])))))))"

definition reply_message :: "state \<Rightarrow> request \<Rightarrow> response prog" where
  "reply_message s req =
     destructure (body req) ''messageId''
       (let messageId = getprop (body req) ''messageId''; reply = getprop (body req) ''reply'' in
        if \<not> truthy messageId \<or> \<not> truthy reply
        then Done (res_status_json 400 (error_body ''messageId and reply are required''))
        else client_call (client s) ''getMessageById'' [messageId] (\<lambda>message.
             method_call message ''reply'' [reply] (\<lambda>r.
             Done (res_json success))))"

definition set_subject :: "state \<Rightarrow> request \<Rightarrow> response prog" where
  "set_subject s req =
     destructure (body req) ''chatId''
       (let chatId = getprop (body req) ''chatId''; subject = getprop (body req) ''subject'' in
        if \<not> truthy chatId \<or> \<not> truthy subject
        then Done (res_status_json 400 (error_body ''chatId and subject are required''))
        else client_call (client s) ''getChatById'' [chatId] (\<lambda>chat.
             get chat ''isGroup'' (\<lambda>isGroup.
             if \<not> truthy isGroup
             then Done (res_status_json 400 (error_body ''This can only be used in a group''))
             else method_call chat ''setSubject'' [subject] (\<lambda>r.
                  Done (res_json success)))))"

definition set_description :: "state \<Rightarrow> request \<Rightarrow> response prog" where
  "set_description s req =
     destructure (body req) ''chatId''
       (let chatId = getprop (body req) ''chatId'';
            description = getprop (body req) ''description'' in
        if \<not> truthy chatId \<or> \<not> truthy description
        then Done (res_status_json 400 (error_body ''chatId and description are required''))
        else client_call (client s) ''getChatById'' [chatId] (\<lambda>chat.
             get chat ''isGroup'' (\<lambda>isGroup.
             if \<not> truthy isGroup
             then Done (res_status_json 400 (error_body ''This can only be used in a group''))
             else method_call chat ''setDescription'' [description] (\<lambda>r.
                  Done (res_json success)))))"

definition leave_group :: "state \<Rightarrow> request \<Rightarrow> response prog" where
  "leave_group s req =
     destructure (body req) ''chatId''
       (let chatId = getprop (body req) ''chatId'' in
        if \<not> truthy chatId
        then Done (res_status_json 400 (error_body ''chatId is required''))
        else client_call (client s) ''getChatById'' [chatId] (\<lambda>chat.
             get chat ''isGroup'' (\<lambda>isGroup.
             if \<not> truthy isGroup
             then Done (res_status_json 400 (error_body ''This can only be used in a group''))
             else method_call chat ''leave'' [] (\<lambda>r.
                  Done (res_json success)))))"

definition join_group :: "state \<Rightarrow> request \<Rightarrow> response prog" where
  "join_group s req =
     destructure (body req) ''inviteCode''
       (let inviteCode = getprop (body req) ''inviteCode'' in
        if \<not> truthy inviteCode
        then Done (res_status_json 400 (error_body ''inviteCode is required''))
        else client_call (client s) ''acceptInvite'' [inviteCode] (\<lambda>r.
             Done (res_json success)))"

definition add_members :: "state \<Rightarrow> request \<Rightarrow> response prog" where
  "add_members s req =
     destructure (body req) ''chatId''
       (let chatId = getprop (body req) ''chatId'';
            participants = getprop (body req) ''participants'' in
        if \<not> truthy chatId \<or> \<not> truthy participants \<or> \<not> isArray participants
        then Done (res_status_json 400 (error_body ''chatId and participants array are required''))
        else client_call (client s) ''getChatById'' [chatId] (\<lambda>group.
             lift (array_map ''participants'' (chat_id ''p'') participants) (\<lambda>formattedParticipants.
             method_call group ''addParticipants'' [JArr formattedParticipants] (\<lambda>result.
             Done (res_json (JObj [(''success'', JBool True), (''result'', result)]))))))"

definition create_group :: "state \<Rightarrow> request \<Rightarrow> response prog" where
  "create_group s req =
     destructure (body req) ''title''
       (let title = getprop (body req) ''title'';
            participants = getprop (body req) ''participants'' in
        if \<not> truthy title \<or> \<not> truthy participants \<or> \<not> isArray participants
        then Done (res_status_json 400 (error_body ''title and participants array are required''))
        else lift (array_map ''participants'' (chat_id ''p'') participants) (\<lambda>formattedParticipants.
             client_call (client s) ''createGroup'' [title, JArr formattedParticipants] (\<lambda>result.
             Done (res_json (JObj [(''success'', JBool True), (''result'', result)])))))"

definition group_info :: "state \<Rightarrow> request \<Rightarrow> response prog" where
  "group_info s req =
     (let chatId = param req ''chatId'' in
      client_call (client s) ''getChatById'' [chatId] (\<lambda>chat.
      get chat ''isGroup'' (\<lambda>isGroup.
      if \<not> truthy isGroup
      then Done (res_status_json 400 (error_body ''This can only be used in a group''))
      else get (getprop chat ''owner'') ''user'' (\<lambda>owner_user.
           get (getprop chat ''participants'') ''length'' (\<lambda>participantCount.
           Done (res_json (JObj
             [(''name'', getprop chat ''name''),
              (''description'', getprop chat ''description''),
              (''createdAt'', getprop chat ''createdAt''),
              (''owner'', owner_user),
              (''participantCount'', participantCount),
              (''participants'', getprop chat ''participants'')])))))))"

text \<open>The object built for one chat in \<^verbatim>\<open>GET /chats\<close> (lines 262-268).\<close>

definition chat_summary :: "jsval \<Rightarrow> string + jsval" where
  "chat_summary chat =
     (case read_member chat ''id'' of
        Inl m \<Rightarrow> Inl m
      | Inr cid \<Rightarrow>
          (case read_member cid ''_serialized'' of
             Inl m \<Rightarrow> Inl m
           | Inr serialized \<Rightarrow>
               Inr (JObj
                 [(''id'', serialized),
                  (''name'', getprop chat ''name''),
                  (''isGroup'', getprop chat ''isGroup''),
                  (''unreadCount'', getprop chat ''unreadCount''),
                  (''timestamp'', getprop chat ''timestamp'')])))"

definition get_chats :: "state \<Rightarrow> request \<Rightarrow> response prog" where
  "get_chats s req =
     client_call (client s) ''getChats'' [] (\<lambda>chats.
     lift (array_map ''chats'' chat_summary chats) (\<lambda>chatList.
     Done (res_json (JObj [(''count'', getprop chats ''length''), (''chats'', JArr chatList)]))))"

definition get_info :: "state \<Rightarrow> request \<Rightarrow> response prog" where
  "get_info s req =
     client_read (client s) ''info'' (\<lambda>info.
     get info ''pushname'' (\<lambda>pushname.
     get (getprop info ''wid'') ''user'' (\<lambda>number.
     Done (res_json (JObj
       [(''pushname'', pushname),
        (''number'', number),
        (''platform'', getprop info ''platform'')])))))"

subsection \<open>Handlers, lines 289-560\<close>

definition send_location :: "state \<Rightarrow> request \<Rightarrow> response prog" where
  "send_location s req =
     destructure (body req) ''to''
       (let to = getprop (body req) ''to'';
            latitude = getprop (body req) ''latitude'';
            longitude = getprop (body req) ''longitude'';
            name = getprop (body req) ''name'';
            address = getprop (body req) ''address'';
            url = getprop (body req) ''url'' in
        if \<not> truthy to \<or> \<not> truthy latitude \<or> \<not> truthy longitude
        then Done (res_status_json 400 (error_body ''to, latitude, and longitude are required''))
        else lift (chat_id ''to'' to) (\<lambda>chatId.
             Call (New ''Location''
                     [latitude, longitude,
                      JObj [(''name'', name), (''address'', address), (''url'', url)]]) (\<lambda>location.
             client_call (client s) ''sendMessage'' [chatId, location] (\<lambda>r.
             Done (res_json success)))))"

definition set_status :: "state \<Rightarrow> request \<Rightarrow> response prog" where
  "set_status s req =
     destructure (body req) ''status''
       (let status = getprop (body req) ''status'' in
        if \<not> truthy status
        then Done (res_status_json 400 (error_body ''status is required''))
        else client_call (client s) ''setStatus'' [status] (\<lambda>r.
             Done (res_json success)))"

definition mention_users :: "state \<Rightarrow> request \<Rightarrow> response prog" where
  "mention_users s req =
     destructure (body req) ''chatId''
       (let chatId = getprop (body req) ''chatId'';
            message = getprop (body req) ''message'';
            mentions = getprop (body req) ''mentions'' in
        if \<not> truthy chatId \<or> \<not> truthy message \<or> \<not> truthy mentions \<or> \<not> isArray mentions
        then Done (res_status_json 400
               (error_body ''chatId, message, and mentions array are required''))
        else client_call (client s) ''getChatById'' [chatId] (\<lambda>chat.
             lift (array_map ''mentions'' (chat_id ''m'') mentions) (\<lambda>formattedMentions.
             method_call chat ''sendMessage''
               [message, JObj [(''mentions'', JArr formattedMentions)]] (\<lambda>r.
             Done (res_json success)))))"

definition mention_groups :: "state \<Rightarrow> request \<Rightarrow> response prog" where
  "mention_groups s req =
     destructure (body req) ''chatId''
       (let chatId = getprop (body req) ''chatId'';
            message = getprop (body req) ''message'';
            groupMentions = getprop (body req) ''groupMentions'' in
        if \<not> truthy chatId \<or> \<not> truthy message \<or> \<not> truthy groupMentions
        then Done (res_status_json 400
               (error_body ''chatId, message, and groupMentions are required''))
        else client_call (client s) ''getChatById'' [chatId] (\<lambda>chat.
             method_call chat ''sendMessage''
               [message, JObj [(''groupMentions'', groupMentions)]] (\<lambda>r.
             Done (res_json success))))"

definition delete_message :: "state \<Rightarrow> request \<Rightarrow> response prog" where
  "delete_message s req =
     destructure (body req) ''messageId''
       (let messageId = getprop (body req) ''messageId'';
            forEveryone = default_to (getprop (body req) ''forEveryone'') (JBool True) in
        if \<not> truthy messageId
        then Done (res_status_json 400 (error_body ''messageId is required''))
        else client_call (client s) ''getMessageById'' [messageId] (\<lambda>message.
             get message ''fromMe'' (\<lambda>fromMe.
             if \<not> truthy fromMe
             then Done (res_status_json 400 (error_body ''Can only delete own messages''))
             else method_call message ''delete'' [forEveryone] (\<lambda>r.
                  Done (res_json success)))))"

definition pin_chat :: "state \<Rightarrow> request \<Rightarrow> response prog" where
  "pin_chat s req =
     destructure (body req) ''chatId''
       (let chatId = getprop (body req) ''chatId'' in
        if \<not> truthy chatId
        then Done (res_status_json 400 (error_body ''chatId is required''))
        else client_call (client s) ''getChatById'' [chatId] (\<lambda>chat.
             method_call chat ''pin'' [] (\<lambda>r.
             Done (res_json success))))"

definition archive_chat :: "state \<Rightarrow> request \<Rightarrow> response prog" where
  "archive_chat s req =
     destructure (body req) ''chatId''
       (let chatId = getprop (body req) ''chatId'' in
        if \<not> truthy chatId
        then Done (res_status_json 400 (error_body ''chatId is required''))
        else client_call (client s) ''getChatById'' [chatId] (\<lambda>chat.
             method_call chat ''archive'' [] (\<lambda>r.
             Done (res_json success))))"

text \<open>
  \<^verbatim>\<open>/mute-chat\<close> passes a Date: the clock reading moved by \<^verbatim>\<open>duration\<close> seconds
  (lines 415-416), kept symbolic.
\<close>

definition mute_chat :: "state \<Rightarrow> request \<Rightarrow> response prog" where
  "mute_chat s req =
     destructure (body req) ''chatId''
       (let chatId = getprop (body req) ''chatId'';
            duration = default_to (getprop (body req) ''duration'') (JNum 20) in
        if \<not> truthy chatId
        then Done (res_status_json 400 (error_body ''chatId is required''))
        else client_call (client s) ''getChatById'' [chatId] (\<lambda>chat.
             let unmuteDate = symbolic ''Date.setSeconds'' [JStr (now req), duration] in
             method_call chat ''mute'' [unmuteDate] (\<lambda>r.
             Done (res_json success))))"

definition send_typing :: "state \<Rightarrow> request \<Rightarrow> response prog" where
  "send_typing s req =
     destructure (body req) ''chatId''
       (let chatId = getprop (body req) ''chatId'' in
        if \<not> truthy chatId
        then Done (res_status_json 400 (error_body ''chatId is required''))
        else client_call (client s) ''getChatById'' [chatId] (\<lambda>chat.
             method_call chat ''sendStateTyping'' [] (\<lambda>r.
             Done (res_json success))))"

definition send_recording :: "state \<Rightarrow> request \<Rightarrow> response prog" where
  "send_recording s req =
     destructure (body req) ''chatId''
       (let chatId = getprop (body req) ''chatId'' in
        if \<not> truthy chatId
        then Done (res_status_json 400 (error_body ''chatId is required''))
        else client_call (client s) ''getChatById'' [chatId] (\<lambda>chat.
             method_call chat ''sendStateRecording'' [] (\<lambda>r.
             Done (res_json success))))"

definition clear_state :: "state \<Rightarrow> request \<Rightarrow> response prog" where
  "clear_state s req =
     destructure (body req) ''chatId''
       (let chatId = getprop (body req) ''chatId'' in
        if \<not> truthy chatId
        then Done (res_status_json 400 (error_body ''chatId is required''))
        else client_call (client s) ''getChatById'' [chatId] (\<lambda>chat.
             method_call chat ''clearState'' [] (\<lambda>r.
             Done (res_json success))))"

definition send_buttons :: "state \<Rightarrow> request \<Rightarrow> response prog" where
  "send_buttons s req =
     destructure (body req) ''to''
       (let to = getprop (body req) ''to'';
            body' = getprop (body req) ''body'';
            buttons = getprop (body req) ''buttons'';
            title = getprop (body req) ''title'';
            footer = getprop (body req) ''footer'' in
        if \<not> truthy to \<or> \<not> truthy body' \<or> \<not> truthy buttons \<or> \<not> isArray buttons
        then Done (res_status_json 400 (error_body ''to, body, and buttons array are required''))
        else lift (chat_id ''to'' to) (\<lambda>chatId.
             Call (New ''Buttons'' [body', buttons, title, footer]) (\<lambda>buttonObj.
             client_call (client s) ''sendMessage'' [chatId, buttonObj] (\<lambda>r.
             Done (res_json success)))))"

definition send_list :: "state \<Rightarrow> request \<Rightarrow> response prog" where
  "send_list s req =
     destructure (body req) ''to''
       (let to = getprop (body req) ''to'';
            body' = getprop (body req) ''body'';
            buttonText = getprop (body req) ''buttonText'';
            sections = getprop (body req) ''sections'';
            title = getprop (body req) ''title'';
            footer = getprop (body req) ''footer'' in
        if \<not> truthy to \<or> \<not> truthy body' \<or> \<not> truthy buttonText \<or> \<not> truthy sections
           \<or> \<not> isArray sections
        then Done (res_status_json 400
               (error_body ''to, body, buttonText, and sections array are required''))
        else lift (chat_id ''to'' to) (\<lambda>chatId.
             Call (New ''List'' [body', buttonText, sections, title, footer]) (\<lambda>list.
             client_call (client s) ''sendMessage'' [chatId, list] (\<lambda>r.
             Done (res_json success)))))"

definition send_reaction :: "state \<Rightarrow> request \<Rightarrow> response prog" where
  "send_reaction s req =
     destructure (body req) ''messageId''
       (let messageId = getprop (body req) ''messageId'';
            reaction = getprop (body req) ''reaction'' in
        if \<not> truthy messageId \<or> \<not> truthy reaction
        then Done (res_status_json 400 (error_body ''messageId and reaction are required''))
        else client_call (client s) ''getMessageById'' [messageId] (\<lambda>message.
             method_call message ''react'' [reaction] (\<lambda>r.
             Done (res_json success))))"

definition send_poll :: "state \<Rightarrow> request \<Rightarrow> response prog" where
  "send_poll s req =
     destructure (body req) ''to''
       (let to = getprop (body req) ''to'';
            question = getprop (body req) ''question'';
            options = getprop (body req) ''options'';
            allowMultipleAnswers =
              default_to (getprop (body req) ''allowMultipleAnswers'') (JBool False);
            messageSecret = getprop (body req) ''messageSecret'' in
        if \<not> truthy to \<or> \<not> truthy question \<or> \<not> truthy options \<or> \<not> isArray options
        then Done (res_status_json 400 (error_body ''to, question, and options array are required''))
        else lift (chat_id ''to'' to) (\<lambda>chatId.
             let pollOptions =
                   [(''allowMultipleAnswers'', allowMultipleAnswers)] @
                   (if truthy messageSecret then [(''messageSecret'', messageSecret)] else []) in
             Call (New ''Poll'' [question, options, JObj pollOptions]) (\<lambda>poll.
             client_call (client s) ''sendMessage'' [chatId, poll] (\<lambda>r.
             Done (res_json success)))))"

definition edit_message :: "state \<Rightarrow> request \<Rightarrow> response prog" where
  "edit_message s req =
     destructure (body req) ''messageId''
       (let messageId = getprop (body req) ''messageId'';
            newText = getprop (body req) ''newText'' in
        if \<not> truthy messageId \<or> \<not> truthy newText
        then Done (res_status_json 400 (error_body ''messageId and newText are required''))
        else client_call (client s) ''getMessageById'' [messageId] (\<lambda>message.
             get message ''fromMe'' (\<lambda>fromMe.
             if \<not> truthy fromMe
             then Done (res_status_json 400 (error_body ''Can only edit own messages''))
             else method_call message ''edit'' [newText] (\<lambda>r.
                  Done (res_json success)))))"

subsection \<open>Handlers, lines 562-716\<close>

definition update_labels :: "state \<Rightarrow> request \<Rightarrow> response prog" where
  "update_labels s req =
     destructure (body req) ''chatId''
       (let chatId = getprop (body req) ''chatId'';
            labelIds = getprop (body req) ''labelIds'' in
        if \<not> truthy chatId \<or> \<not> truthy labelIds \<or> \<not> isArray labelIds
        then Done (res_status_json 400 (error_body ''chatId and labelIds array are required''))
        else client_call (client s) ''getChatById'' [chatId] (\<lambda>chat.
             method_call chat ''changeLabels'' [labelIds] (\<lambda>r.
             Done (res_json success))))"

text \<open>
  \<^verbatim>\<open>/add-labels\<close>: the ids of the chat's labels, then the new ids pushed behind them
  (lines 587-588). \<open>elements\<close> spreads a value that the validation found to be an
  array.
\<close>

fun elements :: "jsval \<Rightarrow> jsval list" where
  "elements (JArr xs) = xs"
| "elements v = []"

definition add_labels :: "state \<Rightarrow> request \<Rightarrow> response prog" where
  "add_labels s req =
     destructure (body req) ''chatId''
       (let chatId = getprop (body req) ''chatId'';
            newLabelIds = getprop (body req) ''newLabelIds'' in
        if \<not> truthy chatId \<or> \<not> truthy newLabelIds \<or> \<not> isArray newLabelIds
        then Done (res_status_json 400 (error_body ''chatId and newLabelIds array are required''))
        else client_call (client s) ''getChatById'' [chatId] (\<lambda>chat.
             method_call chat ''getLabels'' [] (\<lambda>current.
             lift (array_map ''(intermediate value)'' (\<lambda>l. read_member l ''id'') current) (\<lambda>ids.
             let labels = ids @ elements newLabelIds in
             method_call chat ''changeLabels'' [JArr labels] (\<lambda>r.
             Done (res_json success))))))"

definition remove_labels :: "state \<Rightarrow> request \<Rightarrow> response prog" where
  "remove_labels s req =
     destructure (body req) ''chatId''
       (let chatId = getprop (body req) ''chatId'' in
        if \<not> truthy chatId
        then Done (res_status_json 400 (error_body ''chatId is required''))
        else client_call (client s) ''getChatById'' [chatId] (\<lambda>chat.
             method_call chat ''changeLabels'' [JArr []] (\<lambda>r.
             Done (res_json success))))"

definition approve_request :: "state \<Rightarrow> request \<Rightarrow> response prog" where
  "approve_request s req =
     destructure (body req) ''chatId''
       (let chatId = getprop (body req) ''chatId'';
            requesterIds = getprop (body req) ''requesterIds'';
            sleep = getprop (body req) ''sleep'' in
        if \<not> truthy chatId
        then Done (res_status_json 400 (error_body ''chatId is required''))
        else let options =
                   (if truthy requesterIds then [(''requesterIds'', requesterIds)] else []) @
                   (if sleep \<noteq> JUndefined then [(''sleep'', sleep)] else []) in
             client_call (client s) ''approveGroupMembershipRequests'' [chatId, JObj options] (\<lambda>result.
             Done (res_json (JObj [(''success'', JBool True), (''result'', result)]))))"

definition reject_request :: "state \<Rightarrow> request \<Rightarrow> response prog" where
  "reject_request s req =
     destructure (body req) ''chatId''
       (let chatId = getprop (body req) ''chatId'';
            requesterIds = getprop (body req) ''requesterIds'';
            sleep = getprop (body req) ''sleep'' in
        if \<not> truthy chatId
        then Done (res_status_json 400 (error_body ''chatId is required''))
        else let options =
                   (if truthy requesterIds then [(''requesterIds'', requesterIds)] else []) @
                   (if sleep \<noteq> JUndefined then [(''sleep'', sleep)] else []) in
             client_call (client s) ''rejectGroupMembershipRequests'' [chatId, JObj options] (\<lambda>result.
             Done (res_json (JObj [(''success'', JBool True), (''result'', result)]))))"

definition pin_message :: "state \<Rightarrow> request \<Rightarrow> response prog" where
  "pin_message s req =
     destructure (body req) ''messageId''
       (let messageId = getprop (body req) ''messageId'';
            duration = default_to (getprop (body req) ''duration'') (JNum 86400) in
        if \<not> truthy messageId
        then Done (res_status_json 400 (error_body ''messageId is required''))
        else client_call (client s) ''getMessageById'' [messageId] (\<lambda>message.
             method_call message ''pin'' [duration] (\<lambda>result.
             Done (res_json (JObj [(''success'', JBool True), (''result'', result)])))))"

definition unpin_message :: "state \<Rightarrow> request \<Rightarrow> response prog" where
  "unpin_message s req =
     destructure (body req) ''messageId''
       (let messageId = getprop (body req) ''messageId'' in
        if \<not> truthy messageId
        then Done (res_status_json 400 (error_body ''messageId is required''))
        else client_call (client s) ''getMessageById'' [messageId] (\<lambda>message.
             method_call message ''unpin'' [] (\<lambda>result.
             Done (res_json (JObj [(''success'', JBool True), (''result'', result)])))))"

definition device_count :: "state \<Rightarrow> request \<Rightarrow> response prog" where
  "device_count s req =
     (let contactId = param req ''contactId'' in
      client_call (client s) ''getContactDeviceCount'' [contactId] (\<lambda>deviceCount.
      Done (res_json (JObj [(''deviceCount'', deviceCount)]))))"

definition sync_history :: "state \<Rightarrow> request \<Rightarrow> response prog" where
  "sync_history s req =
     destructure (body req) ''chatId''
       (let chatId = getprop (body req) ''chatId'' in
        if \<not> truthy chatId
        then Done (res_status_json 400 (error_body ''chatId is required''))
        else client_call (client s) ''syncHistory'' [chatId] (\<lambda>isSynced.
             Done (res_json (JObj [(''success'', JBool True), (''isSynced'', isSynced)]))))"

definition get_statuses :: "state \<Rightarrow> request \<Rightarrow> response prog" where
  "get_statuses s req =
     client_call (client s) ''getBroadcasts'' [] (\<lambda>statuses.
     Done (res_json (JObj [(''statuses'', statuses)])))"

subsection \<open>Handlers, lines 718-960\<close>

text \<open>
  \<^verbatim>\<open>/send-media\<close>, after the upload middleware: the file is read, sent and removed.
\<close>

definition send_media :: "state \<Rightarrow> request \<Rightarrow> response prog" where
  "send_media s req =
     destructure (body req) ''to''
       (let to = getprop (body req) ''to'';
            caption = getprop (body req) ''caption'';
            sendMediaAsHd = default_to (getprop (body req) ''sendMediaAsHd'') (JBool False);
            isViewOnce = default_to (getprop (body req) ''isViewOnce'') (JBool False);
            sendAudioAsVoice = default_to (getprop (body req) ''sendAudioAsVoice'') (JBool False) in
        case req_file req of
          None \<Rightarrow> Done (res_status_json 400 (error_body ''to and media file are required''))
        | Some f \<Rightarrow>
            if \<not> truthy to
            then Done (res_status_json 400 (error_body ''to and media file are required''))
            else lift (chat_id ''to'' to) (\<lambda>chatId.
                 Call (Method Fs ''readFileSync'' [JStr (path f)]) (\<lambda>mediaData.
                 let options = JObj
                       [(''caption'', caption),
                        (''sendMediaAsHd'', sendMediaAsHd),
                        (''isViewOnce'', isViewOnce),
                        (''sendAudioAsVoice'', sendAudioAsVoice)];
                     mediaMessage = JObj
                       [(''mimetype'', JStr (mimetype f)),
                        (''data'', symbolic ''toString.base64'' [mediaData]),
                        (''filename'', JStr (originalname f))] in
                 client_call (client s) ''sendMessage'' [chatId, mediaMessage, options] (\<lambda>r.
                 Call (Method Fs ''unlinkSync'' [JStr (path f)]) (\<lambda>u.
                 Done (res_json success))))))"

definition send_vcard :: "state \<Rightarrow> request \<Rightarrow> response prog" where
  "send_vcard s req =
     destructure (body req) ''to''
       (let to = getprop (body req) ''to''; vCard = getprop (body req) ''vCard'' in
        if \<not> truthy to \<or> \<not> truthy vCard
        then Done (res_status_json 400 (error_body ''to and vCard are required''))
        else lift (chat_id ''to'' to) (\<lambda>chatId.
             client_call (client s) ''sendMessage'' [chatId, vCard] (\<lambda>r.
             Done (res_json success))))"

definition change_sync :: "state \<Rightarrow> request \<Rightarrow> response prog" where
  "change_sync s req =
     destructure_default (body req) ''enabled''
       (let enabled = default_to (getprop (body req) ''enabled'') (JBool True) in
        client_call (client s) ''setBackgroundSync'' [enabled] (\<lambda>backgroundSync.
        Done (res_json (JObj [(''success'', JBool True), (''backgroundSync'', backgroundSync)]))))"

definition download_media :: "state \<Rightarrow> request \<Rightarrow> response prog" where
  "download_media s req =
     (let messageId = param req ''messageId'' in
      client_call (client s) ''getMessageById'' [messageId] (\<lambda>message.
      get message ''hasMedia'' (\<lambda>hasMedia.
      if \<not> truthy hasMedia
      then Done (res_status_json 400 (error_body ''Message does not have media''))
      else method_call message ''downloadMedia'' [] (\<lambda>media.
           get media ''mimetype'' (\<lambda>mimetype'.
           get (getprop media ''data'') ''length'' (\<lambda>dataLength.
           Done (res_json (JObj
             [(''mimetype'', mimetype'),
              (''filename'', getprop media ''filename''),
              (''data'', getprop media ''data''),
              (''dataLength'', dataLength)]))))))))"

text \<open>The fields \<open>ks\<close> of an object, copied under the same names.\<close>

definition copy_fields :: "jsval \<Rightarrow> string list \<Rightarrow> (string \<times> jsval) list" where
  "copy_fields obj ks = map (\<lambda>k. (k, getprop obj k)) ks"

definition message_info :: "state \<Rightarrow> request \<Rightarrow> response prog" where
  "message_info s req =
     (let messageId = param req ''messageId'' in
      client_call (client s) ''getMessageById'' [messageId] (\<lambda>message.
      get message ''id'' (\<lambda>mid.
      get mid ''_serialized'' (\<lambda>serialized.
      Done (res_json (JObj
        ((''id'', serialized) #
         copy_fields message
           [''body'', ''type'', ''timestamp'', ''from'', ''to'', ''author'', ''fromMe'',
            ''hasMedia'', ''hasQuotedMsg'', ''isForwarded'', ''isStatus'', ''isStarred'',
            ''broadcast''])))))))"

definition quoted_message :: "state \<Rightarrow> request \<Rightarrow> response prog" where
  "quoted_message s req =
     (let messageId = param req ''messageId'' in
      client_call (client s) ''getMessageById'' [messageId] (\<lambda>message.
      get message ''hasQuotedMsg'' (\<lambda>hasQuotedMsg.
      if \<not> truthy hasQuotedMsg
      then Done (res_status_json 400 (error_body ''Message does not have quoted message''))
      else method_call message ''getQuotedMessage'' [] (\<lambda>quotedMsg.
           get quotedMsg ''id'' (\<lambda>qid.
           get qid ''_serialized'' (\<lambda>serialized.
           Done (res_json (JObj
             [(''id'', serialized),
              (''type'', getprop quotedMsg ''type''),
              (''author'', if truthy (getprop quotedMsg ''author'')
                           then getprop quotedMsg ''author'' else getprop quotedMsg ''from''),
              (''timestamp'', getprop quotedMsg ''timestamp''),
              (''hasMedia'', getprop quotedMsg ''hasMedia''),
              (''body'', getprop quotedMsg ''body'')]))))))))"

definition jump_to_message :: "state \<Rightarrow> request \<Rightarrow> response prog" where
  "jump_to_message s req =
     destructure (body req) ''messageId''
       (let messageId = getprop (body req) ''messageId'' in
        if \<not> truthy messageId
        then Done (res_status_json 400 (error_body ''messageId is required''))
        else client_call (client s) ''interface.openChatWindowAt'' [messageId] (\<lambda>r.
             Done (res_json success)))"

definition contact_summary :: "jsval \<Rightarrow> string + jsval" where
  "contact_summary contact =
     (case read_member contact ''id'' of
        Inl m \<Rightarrow> Inl m
      | Inr cid \<Rightarrow>
          (case read_member cid ''_serialized'' of
             Inl m \<Rightarrow> Inl m
           | Inr serialized \<Rightarrow>
               Inr (JObj
                 ((''id'', serialized) #
                  copy_fields contact
                    [''name'', ''pushname'', ''number'', ''isMe'', ''isUser'', ''isGroup'',
                     ''isWAContact'', ''isMyContact'', ''isBlocked'']))))"

definition get_contacts :: "state \<Rightarrow> request \<Rightarrow> response prog" where
  "get_contacts s req =
     client_call (client s) ''getContacts'' [] (\<lambda>contacts.
     lift (array_map ''contacts'' contact_summary contacts) (\<lambda>contactList.
     Done (res_json (JObj [(''contacts'', JArr contactList)]))))"

definition get_chat :: "state \<Rightarrow> request \<Rightarrow> response prog" where
  "get_chat s req =
     (let chatId = param req ''chatId'' in
      client_call (client s) ''getChatById'' [chatId] (\<lambda>chat.
      get chat ''id'' (\<lambda>cid.
      get cid ''_serialized'' (\<lambda>serialized.
      let group_only = (\<lambda>k. if truthy (getprop chat ''isGroup'') then getprop chat k else JUndefined) in
      Done (res_json (JObj
        ((''id'', serialized) #
         copy_fields chat
           [''name'', ''isGroup'', ''isReadOnly'', ''unreadCount'', ''timestamp'', ''archived'',
            ''pinned'', ''isMuted'', ''muteExpiration''] @
         [(''participants'', group_only ''participants''),
          (''description'', group_only ''description''),
          (''owner'', group_only ''owner''),
          (''createdAt'', group_only ''createdAt'')])))))))"

definition message_summary :: "jsval \<Rightarrow> string + jsval" where
  "message_summary msg =
     (case read_member msg ''id'' of
        Inl m \<Rightarrow> Inl m
      | Inr mid \<Rightarrow>
          (case read_member mid ''_serialized'' of
             Inl m \<Rightarrow> Inl m
           | Inr serialized \<Rightarrow>
               Inr (JObj
                 ((''id'', serialized) #
                  copy_fields msg
                    [''body'', ''type'', ''timestamp'', ''from'', ''to'', ''author'', ''fromMe'',
                     ''hasMedia'', ''hasQuotedMsg'']))))"

definition get_messages :: "state \<Rightarrow> request \<Rightarrow> response prog" where
  "get_messages s req =
     (let chatId = param req ''chatId'';
          limit = default_to (case map_of (query req) ''limit'' of None \<Rightarrow> JUndefined | Some v \<Rightarrow> v)
                    (JNum 50) in
      client_call (client s) ''getChatById'' [chatId] (\<lambda>chat.
      method_call chat ''fetchMessages'' [JObj [(''limit'', symbolic ''parseInt'' [limit])]] (\<lambda>messages.
      lift (array_map ''messages'' message_summary messages) (\<lambda>messageList.
      Done (res_json (JObj [(''messages'', JArr messageList)]))))))"

definition send_preview :: "state \<Rightarrow> request \<Rightarrow> response prog" where
  "send_preview s req =
     destructure (body req) ''to''
       (let to = getprop (body req) ''to''; text = getprop (body req) ''text'' in
        if \<not> truthy to \<or> \<not> truthy text
        then Done (res_status_json 400 (error_body ''to and text are required''))
        else lift (chat_id ''to'' to) (\<lambda>chatId.
             client_call (client s) ''sendMessage''
               [chatId, text, JObj [(''linkPreview'', JBool True)]] (\<lambda>r.
             Done (res_json success))))"

subsection \<open>The routes\<close>

text \<open>
  The registered routes, in the order of the source, and what each registration chains
  together. Only \<^verbatim>\<open>POST /initialize\<close> changes the facade's state.
\<close>

datatype endpoint =
    GET_status
  | POST_initialize
  | POST_send_message
  | POST_reply_message
  | POST_set_subject
  | POST_set_description
  | POST_leave_group
  | POST_join_group
  | POST_add_members
  | POST_create_group
  | GET_group_info
  | GET_chats
  | GET_info
  | POST_send_location
  | POST_set_status
  | POST_mention_users
  | POST_mention_groups
  | POST_delete_message
  | POST_pin_chat
  | POST_archive_chat
  | POST_mute_chat
  | POST_send_typing
  | POST_send_recording
  | POST_clear_state
  | POST_send_buttons
  | POST_send_list
  | POST_send_reaction
  | POST_send_poll
  | POST_edit_message
  | POST_update_labels
  | POST_add_labels
  | POST_remove_labels
  | POST_approve_request
  | POST_reject_request
  | POST_pin_message
  | POST_unpin_message
  | GET_device_count
  | POST_sync_history
  | GET_statuses
  | POST_send_media
  | POST_send_vcard
  | POST_change_sync
  | GET_download_media
  | GET_message_info
  | GET_quoted_message
  | POST_jump_to_message
  | GET_contacts
  | GET_chat
  | GET_messages
  | POST_send_preview

text \<open>
  The last function of each registration: for a guarded route, the
  \<^verbatim>\<open>async (req, res) => { try { ... } catch ... }\<close> handler.
\<close>

primrec handler :: "endpoint \<Rightarrow> state \<Rightarrow> lib \<Rightarrow> request \<Rightarrow> outcome" where
  "handler GET_status s lib req = (get_status s req, s, [])"
| "handler POST_initialize s lib req = post_initialize s lib"
| "handler POST_send_message s lib req = try_catch s lib (send_message s req)"
| "handler POST_reply_message s lib req = try_catch s lib (reply_message s req)"
| "handler POST_set_subject s lib req = try_catch s lib (set_subject s req)"
| "handler POST_set_description s lib req = try_catch s lib (set_description s req)"
| "handler POST_leave_group s lib req = try_catch s lib (leave_group s req)"
| "handler POST_join_group s lib req = try_catch s lib (join_group s req)"
| "handler POST_add_members s lib req = try_catch s lib (add_members s req)"
| "handler POST_create_group s lib req = try_catch s lib (create_group s req)"
| "handler GET_group_info s lib req = try_catch s lib (group_info s req)"
| "handler GET_chats s lib req = try_catch s lib (get_chats s req)"
| "handler GET_info s lib req = try_catch s lib (get_info s req)"
| "handler POST_send_location s lib req = try_catch s lib (send_location s req)"
| "handler POST_set_status s lib req = try_catch s lib (set_status s req)"
| "handler POST_mention_users s lib req = try_catch s lib (mention_users s req)"
| "handler POST_mention_groups s lib req = try_catch s lib (mention_groups s req)"
| "handler POST_delete_message s lib req = try_catch s lib (delete_message s req)"
| "handler POST_pin_chat s lib req = try_catch s lib (pin_chat s req)"
| "handler POST_archive_chat s lib req = try_catch s lib (archive_chat s req)"
| "handler POST_mute_chat s lib req = try_catch s lib (mute_chat s req)"
| "handler POST_send_typing s lib req = try_catch s lib (send_typing s req)"
| "handler POST_send_recording s lib req = try_catch s lib (send_recording s req)"
| "handler POST_clear_state s lib req = try_catch s lib (clear_state s req)"
| "handler POST_send_buttons s lib req = try_catch s lib (send_buttons s req)"
| "handler POST_send_list s lib req = try_catch s lib (send_list s req)"
| "handler POST_send_reaction s lib req = try_catch s lib (send_reaction s req)"
| "handler POST_send_poll s lib req = try_catch s lib (send_poll s req)"
| "handler POST_edit_message s lib req = try_catch s lib (edit_message s req)"
| "handler POST_update_labels s lib req = try_catch s lib (update_labels s req)"
| "handler POST_add_labels s lib req = try_catch s lib (add_labels s req)"
| "handler POST_remove_labels s lib req = try_catch s lib (remove_labels s req)"
| "handler POST_approve_request s lib req = try_catch s lib (approve_request s req)"
| "handler POST_reject_request s lib req = try_catch s lib (reject_request s req)"
| "handler POST_pin_message s lib req = try_catch s lib (pin_message s req)"
| "handler POST_unpin_message s lib req = try_catch s lib (unpin_message s req)"
| "handler GET_device_count s lib req = try_catch s lib (device_count s req)"
| "handler POST_sync_history s lib req = try_catch s lib (sync_history s req)"
| "handler GET_statuses s lib req = try_catch s lib (get_statuses s req)"
| "handler POST_send_media s lib req = try_catch s lib (send_media s req)"
| "handler POST_send_vcard s lib req = try_catch s lib (send_vcard s req)"
| "handler POST_change_sync s lib req = try_catch s lib (change_sync s req)"
| "handler GET_download_media s lib req = try_catch s lib (download_media s req)"
| "handler GET_message_info s lib req = try_catch s lib (message_info s req)"
| "handler GET_quoted_message s lib req = try_catch s lib (quoted_message s req)"
| "handler POST_jump_to_message s lib req = try_catch s lib (jump_to_message s req)"
| "handler GET_contacts s lib req = try_catch s lib (get_contacts s req)"
| "handler GET_chat s lib req = try_catch s lib (get_chat s req)"
| "handler GET_messages s lib req = try_catch s lib (get_messages s req)"
| "handler POST_send_preview s lib req = try_catch s lib (send_preview s req)"

text \<open>
  The route table: \<^verbatim>\<open>app.get(path, ...)\<close> and \<^verbatim>\<open>app.post(path, ...)\<close> with the
  middleware each registration lists before its handler. An exception that escapes a
  handler ends in the error-handling middleware (inside \<open>post_initialize\<close>, the only
  handler without a \<^verbatim>\<open>try\<close> that can raise).
\<close>

primrec app :: "endpoint \<Rightarrow> state \<Rightarrow> lib \<Rightarrow> request \<Rightarrow> outcome" where
  "app GET_status s lib req = handler GET_status s lib req"
| "app POST_initialize s lib req = handler POST_initialize s lib req"
| "app POST_send_message s lib req = checkClientReady s (handler POST_send_message s lib req)"
| "app POST_reply_message s lib req = checkClientReady s (handler POST_reply_message s lib req)"
| "app POST_set_subject s lib req = checkClientReady s (handler POST_set_subject s lib req)"
| "app POST_set_description s lib req = checkClientReady s (handler POST_set_description s lib req)"
| "app POST_leave_group s lib req = checkClientReady s (handler POST_leave_group s lib req)"
| "app POST_join_group s lib req = checkClientReady s (handler POST_join_group s lib req)"
| "app POST_add_members s lib req = checkClientReady s (handler POST_add_members s lib req)"
| "app POST_create_group s lib req = checkClientReady s (handler POST_create_group s lib req)"
| "app GET_group_info s lib req = checkClientReady s (handler GET_group_info s lib req)"
| "app GET_chats s lib req = checkClientReady s (handler GET_chats s lib req)"
| "app GET_info s lib req = checkClientReady s (handler GET_info s lib req)"
| "app POST_send_location s lib req = checkClientReady s (handler POST_send_location s lib req)"
| "app POST_set_status s lib req = checkClientReady s (handler POST_set_status s lib req)"
| "app POST_mention_users s lib req = checkClientReady s (handler POST_mention_users s lib req)"
| "app POST_mention_groups s lib req = checkClientReady s (handler POST_mention_groups s lib req)"
| "app POST_delete_message s lib req = checkClientReady s (handler POST_delete_message s lib req)"
| "app POST_pin_chat s lib req = checkClientReady s (handler POST_pin_chat s lib req)"
| "app POST_archive_chat s lib req = checkClientReady s (handler POST_archive_chat s lib req)"
| "app POST_mute_chat s lib req = checkClientReady s (handler POST_mute_chat s lib req)"
| "app POST_send_typing s lib req = checkClientReady s (handler POST_send_typing s lib req)"
| "app POST_send_recording s lib req = checkClientReady s (handler POST_send_recording s lib req)"
| "app POST_clear_state s lib req = checkClientReady s (handler POST_clear_state s lib req)"
| "app POST_send_buttons s lib req = checkClientReady s (handler POST_send_buttons s lib req)"
| "app POST_send_list s lib req = checkClientReady s (handler POST_send_list s lib req)"
| "app POST_send_reaction s lib req = checkClientReady s (handler POST_send_reaction s lib req)"
| "app POST_send_poll s lib req = checkClientReady s (handler POST_send_poll s lib req)"
| "app POST_edit_message s lib req = checkClientReady s (handler POST_edit_message s lib req)"
| "app POST_update_labels s lib req = checkClientReady s (handler POST_update_labels s lib req)"
| "app POST_add_labels s lib req = checkClientReady s (handler POST_add_labels s lib req)"
| "app POST_remove_labels s lib req = checkClientReady s (handler POST_remove_labels s lib req)"
| "app POST_approve_request s lib req = checkClientReady s (handler POST_approve_request s lib req)"
| "app POST_reject_request s lib req = checkClientReady s (handler POST_reject_request s lib req)"
| "app POST_pin_message s lib req = checkClientReady s (handler POST_pin_message s lib req)"
| "app POST_unpin_message s lib req = checkClientReady s (handler POST_unpin_message s lib req)"
| "app GET_device_count s lib req = checkClientReady s (handler GET_device_count s lib req)"
| "app POST_sync_history s lib req = checkClientReady s (handler POST_sync_history s lib req)"
| "app GET_statuses s lib req = checkClientReady s (handler GET_statuses s lib req)"
| "app POST_send_media s lib req =
     checkClientReady s (upload_single s req (handler POST_send_media s lib req))"
| "app POST_send_vcard s lib req = checkClientReady s (handler POST_send_vcard s lib req)"
| "app POST_change_sync s lib req = checkClientReady s (handler POST_change_sync s lib req)"
| "app GET_download_media s lib req = checkClientReady s (handler GET_download_media s lib req)"
| "app GET_message_info s lib req = checkClientReady s (handler GET_message_info s lib req)"
| "app GET_quoted_message s lib req = checkClientReady s (handler GET_quoted_message s lib req)"
| "app POST_jump_to_message s lib req = checkClientReady s (handler POST_jump_to_message s lib req)"
| "app GET_contacts s lib req = checkClientReady s (handler GET_contacts s lib req)"
| "app GET_chat s lib req = checkClientReady s (handler GET_chat s lib req)"
| "app GET_messages s lib req = checkClientReady s (handler GET_messages s lib req)"
| "app POST_send_preview s lib req = checkClientReady s (handler POST_send_preview s lib req)"

text \<open>
  The body parsers \<^verbatim>\<open>express.json()\<close> and \<^verbatim>\<open>express.urlencoded()\<close> (lines 9-10)
  run before every route. What arrives is either a request whose body they could
  parse, or one they could not (with the parser's message): that one never reaches a
  route, and the error-handling middleware answers it.
\<close>

type_synonym incoming = "string + request"

definition body_parsers :: "state \<Rightarrow> incoming \<Rightarrow> (request \<Rightarrow> outcome) \<Rightarrow> outcome" where
  "body_parsers s inc next =
     (case inc of
        Inl m \<Rightarrow> (error_middleware m, s, [])
      | Inr req \<Rightarrow> next req)"

definition server :: "endpoint \<Rightarrow> state \<Rightarrow> lib \<Rightarrow> incoming \<Rightarrow> outcome" where
  "server ep s lib inc = body_parsers s inc (app ep s lib)"

section \<open>What the claims speak of\<close>

text \<open>The routes registered with \<^verbatim>\<open>checkClientReady\<close>: all but the first two.\<close>

definition guarded :: "endpoint \<Rightarrow> bool" where
  "guarded ep = (ep \<noteq> GET_status \<and> ep \<noteq> POST_initialize)"

text \<open>
  The fields each handler's validation tests before anything else, with the way the
  test reads them: a field that must be truthy, a field that must be a truthy array,
  and the uploaded file of \<^verbatim>\<open>/send-media\<close>; and the message of the 400 response.
  The routes that validate nothing have no required field.
\<close>

datatype kind = Present | ArrayField | File

primrec required :: "endpoint \<Rightarrow> (string \<times> kind) list" where
  "required GET_status = []"
| "required POST_initialize = []"
| "required POST_send_message = [(''to'', Present), (''message'', Present)]"
| "required POST_reply_message = [(''messageId'', Present), (''reply'', Present)]"
| "required POST_set_subject = [(''chatId'', Present), (''subject'', Present)]"
| "required POST_set_description = [(''chatId'', Present), (''description'', Present)]"
| "required POST_leave_group = [(''chatId'', Present)]"
| "required POST_join_group = [(''inviteCode'', Present)]"
| "required POST_add_members = [(''chatId'', Present), (''participants'', ArrayField)]"
| "required POST_create_group = [(''title'', Present), (''participants'', ArrayField)]"
| "required GET_group_info = []"
| "required GET_chats = []"
| "required GET_info = []"
| "required POST_send_location = [(''to'', Present), (''latitude'', Present), (''longitude'', Present)]"
| "required POST_set_status = [(''status'', Present)]"
| "required POST_mention_users = [(''chatId'', Present), (''message'', Present), (''mentions'', ArrayField)]"
| "required POST_mention_groups = [(''chatId'', Present), (''message'', Present), (''groupMentions'', Present)]"
| "required POST_delete_message = [(''messageId'', Present)]"
| "required POST_pin_chat = [(''chatId'', Present)]"
| "required POST_archive_chat = [(''chatId'', Present)]"
| "required POST_mute_chat = [(''chatId'', Present)]"
| "required POST_send_typing = [(''chatId'', Present)]"
| "required POST_send_recording = [(''chatId'', Present)]"
| "required POST_clear_state = [(''chatId'', Present)]"
| "required POST_send_buttons = [(''to'', Present), (''body'', Present), (''buttons'', ArrayField)]"
| "required POST_send_list = [(''to'', Present), (''body'', Present), (''buttonText'', Present), (''sections'', ArrayField)]"
| "required POST_send_reaction = [(''messageId'', Present), (''reaction'', Present)]"
| "required POST_send_poll = [(''to'', Present), (''question'', Present), (''options'', ArrayField)]"
| "required POST_edit_message = [(''messageId'', Present), (''newText'', Present)]"
| "required POST_update_labels = [(''chatId'', Present), (''labelIds'', ArrayField)]"
| "required POST_add_labels = [(''chatId'', Present), (''newLabelIds'', ArrayField)]"
| "required POST_remove_labels = [(''chatId'', Present)]"
| "required POST_approve_request = [(''chatId'', Present)]"
| "required POST_reject_request = [(''chatId'', Present)]"
| "required POST_pin_message = [(''messageId'', Present)]"
| "required POST_unpin_message = [(''messageId'', Present)]"
| "required GET_device_count = []"
| "required POST_sync_history = [(''chatId'', Present)]"
| "required GET_statuses = []"
| "required POST_send_media = [(''to'', Present), (''media'', File)]"
| "required POST_send_vcard = [(''to'', Present), (''vCard'', Present)]"
| "required POST_change_sync = []"
| "required GET_download_media = []"
| "required GET_message_info = []"
| "required GET_quoted_message = []"
| "required POST_jump_to_message = [(''messageId'', Present)]"
| "required GET_contacts = []"
| "required GET_chat = []"
| "required GET_messages = []"
| "required POST_send_preview = [(''to'', Present), (''text'', Present)]"

primrec required_message :: "endpoint \<Rightarrow> string" where
  "required_message GET_status = ''''"
| "required_message POST_initialize = ''''"
| "required_message POST_send_message = ''to and message are required''"
| "required_message POST_reply_message = ''messageId and reply are required''"
| "required_message POST_set_subject = ''chatId and subject are required''"
| "required_message POST_set_description = ''chatId and description are required''"
| "required_message POST_leave_group = ''chatId is required''"
| "required_message POST_join_group = ''inviteCode is required''"
| "required_message POST_add_members = ''chatId and participants array are required''"
| "required_message POST_create_group = ''title and participants array are required''"
| "required_message GET_group_info = ''''"
| "required_message GET_chats = ''''"
| "required_message GET_info = ''''"
| "required_message POST_send_location = ''to, latitude, and longitude are required''"
| "required_message POST_set_status = ''status is required''"
| "required_message POST_mention_users = ''chatId, message, and mentions array are required''"
| "required_message POST_mention_groups = ''chatId, message, and groupMentions are required''"
| "required_message POST_delete_message = ''messageId is required''"
| "required_message POST_pin_chat = ''chatId is required''"
| "required_message POST_archive_chat = ''chatId is required''"
| "required_message POST_mute_chat = ''chatId is required''"
| "required_message POST_send_typing = ''chatId is required''"
| "required_message POST_send_recording = ''chatId is required''"
| "required_message POST_clear_state = ''chatId is required''"
| "required_message POST_send_buttons = ''to, body, and buttons array are required''"
| "required_message POST_send_list = ''to, body, buttonText, and sections array are required''"
| "required_message POST_send_reaction = ''messageId and reaction are required''"
| "required_message POST_send_poll = ''to, question, and options array are required''"
| "required_message POST_edit_message = ''messageId and newText are required''"
| "required_message POST_update_labels = ''chatId and labelIds array are required''"
| "required_message POST_add_labels = ''chatId and newLabelIds array are required''"
| "required_message POST_remove_labels = ''chatId is required''"
| "required_message POST_approve_request = ''chatId is required''"
| "required_message POST_reject_request = ''chatId is required''"
| "required_message POST_pin_message = ''messageId is required''"
| "required_message POST_unpin_message = ''messageId is required''"
| "required_message GET_device_count = ''''"
| "required_message POST_sync_history = ''chatId is required''"
| "required_message GET_statuses = ''''"
| "required_message POST_send_media = ''to and media file are required''"
| "required_message POST_send_vcard = ''to and vCard are required''"
| "required_message POST_change_sync = ''''"
| "required_message GET_download_media = ''''"
| "required_message GET_message_info = ''''"
| "required_message GET_quoted_message = ''''"
| "required_message POST_jump_to_message = ''messageId is required''"
| "required_message GET_contacts = ''''"
| "required_message GET_chat = ''''"
| "required_message GET_messages = ''''"
| "required_message POST_send_preview = ''to and text are required''"

text \<open>
  A required field is missing from a request when it is absent or otherwise falsy, or,
  for an array field, when it is not an array.
\<close>

fun missing :: "request \<Rightarrow> string \<times> kind \<Rightarrow> bool" where
  "missing req (k, Present) = (\<not> truthy (getprop (body req) k))"
| "missing req (k, ArrayField) =
     (\<not> truthy (getprop (body req) k) \<or> \<not> isArray (getprop (body req) k))"
| "missing req (k, File) = (req_file req = None)"

text \<open>
  The body inside the \<^verbatim>\<open>try\<close> of each guarded route's handler; the two unguarded
  handlers have no \<^verbatim>\<open>try\<close>.
\<close>

primrec try_body :: "endpoint \<Rightarrow> state \<Rightarrow> request \<Rightarrow> response prog option" where
  "try_body GET_status s req = None"
| "try_body POST_initialize s req = None"
| "try_body POST_send_message s req = Some (send_message s req)"
| "try_body POST_reply_message s req = Some (reply_message s req)"
| "try_body POST_set_subject s req = Some (set_subject s req)"
| "try_body POST_set_description s req = Some (set_description s req)"
| "try_body POST_leave_group s req = Some (leave_group s req)"
| "try_body POST_join_group s req = Some (join_group s req)"
| "try_body POST_add_members s req = Some (add_members s req)"
| "try_body POST_create_group s req = Some (create_group s req)"
| "try_body GET_group_info s req = Some (group_info s req)"
| "try_body GET_chats s req = Some (get_chats s req)"
| "try_body GET_info s req = Some (get_info s req)"
| "try_body POST_send_location s req = Some (send_location s req)"
| "try_body POST_set_status s req = Some (set_status s req)"
| "try_body POST_mention_users s req = Some (mention_users s req)"
| "try_body POST_mention_groups s req = Some (mention_groups s req)"
| "try_body POST_delete_message s req = Some (delete_message s req)"
| "try_body POST_pin_chat s req = Some (pin_chat s req)"
| "try_body POST_archive_chat s req = Some (archive_chat s req)"
| "try_body POST_mute_chat s req = Some (mute_chat s req)"
| "try_body POST_send_typing s req = Some (send_typing s req)"
| "try_body POST_send_recording s req = Some (send_recording s req)"
| "try_body POST_clear_state s req = Some (clear_state s req)"
| "try_body POST_send_buttons s req = Some (send_buttons s req)"
| "try_body POST_send_list s req = Some (send_list s req)"
| "try_body POST_send_reaction s req = Some (send_reaction s req)"
| "try_body POST_send_poll s req = Some (send_poll s req)"
| "try_body POST_edit_message s req = Some (edit_message s req)"
| "try_body POST_update_labels s req = Some (update_labels s req)"
| "try_body POST_add_labels s req = Some (add_labels s req)"
| "try_body POST_remove_labels s req = Some (remove_labels s req)"
| "try_body POST_approve_request s req = Some (approve_request s req)"
| "try_body POST_reject_request s req = Some (reject_request s req)"
| "try_body POST_pin_message s req = Some (pin_message s req)"
| "try_body POST_unpin_message s req = Some (unpin_message s req)"
| "try_body GET_device_count s req = Some (device_count s req)"
| "try_body POST_sync_history s req = Some (sync_history s req)"
| "try_body GET_statuses s req = Some (get_statuses s req)"
| "try_body POST_send_media s req = Some (send_media s req)"
| "try_body POST_send_vcard s req = Some (send_vcard s req)"
| "try_body POST_change_sync s req = Some (change_sync s req)"
| "try_body GET_download_media s req = Some (download_media s req)"
| "try_body GET_message_info s req = Some (message_info s req)"
| "try_body GET_quoted_message s req = Some (quoted_message s req)"
| "try_body POST_jump_to_message s req = Some (jump_to_message s req)"
| "try_body GET_contacts s req = Some (get_contacts s req)"
| "try_body GET_chat s req = Some (get_chat s req)"
| "try_body GET_messages s req = Some (get_messages s req)"
| "try_body POST_send_preview s req = Some (send_preview s req)"








text \<open>Every call a handler body can make satisfies \<open>P\<close>.\<close>

primrec all_calls :: "'a prog \<Rightarrow> (libcall \<Rightarrow> bool) \<Rightarrow> bool" where
  "all_calls (Done r) P = True"
| "all_calls (Throw m) P = True"
| "all_calls (Call c k) P = (P c \<and> (\<forall>v. all_calls (k v) P))"

text \<open>A call that is addressed to no client handle, or to the handle \<open>cl\<close>.\<close>

definition addressed_to :: "nat option \<Rightarrow> libcall \<Rightarrow> bool" where
  "addressed_to cl c = (client_of c = None \<or> client_of c = cl)"

text \<open>A call that ends a client's session: the library's \<^verbatim>\<open>destroy\<close> and \<^verbatim>\<open>logout\<close>.\<close>

fun ends_session :: "libcall \<Rightarrow> bool" where
  "ends_session (Method t name args) = (name = ''destroy'' \<or> name = ''logout'')"
| "ends_session c = False"

text \<open>
  The states the facade can be in: the script's last line (1025) runs
  \<^verbatim>\<open>initializeClient()\<close> once (an exception there ends the process), and from then on
  requests and events of the clients arrive in any order.
\<close>

inductive reachable :: "state \<Rightarrow> bool" where
  startup: "initializeClient initial lib = (Inr u, s, tr) \<Longrightarrow> reachable s"
| request: "reachable s \<Longrightarrow> app ep s lib req = (r, s', tr) \<Longrightarrow> reachable s'"
| event: "reachable s \<Longrightarrow> on_event s lib e = (s', tr, rejection) \<Longrightarrow> reachable s'"

text \<open>The object \<^verbatim>\<open>GET /chats\<close> answers for one chat, read off the chat's fields.\<close>

definition chat_fields :: "jsval \<Rightarrow> jsval" where
  "chat_fields chat =
     JObj [(''id'', getprop (getprop chat ''id'') ''_serialized''),
           (''name'', getprop chat ''name''),
           (''isGroup'', getprop chat ''isGroup''),
           (''unreadCount'', getprop chat ''unreadCount''),
           (''timestamp'', getprop chat ''timestamp'')]"

text \<open>A chat object of the library: an object whose \<^verbatim>\<open>id\<close> is an object.\<close>

definition is_chat :: "jsval \<Rightarrow> bool" where
  "is_chat chat = (\<not> nullish chat \<and> \<not> nullish (getprop chat ''id''))"

subsection \<open>Concrete states, environments and requests\<close>

text \<open>
  The state once the start-up construction is done, before and after the first
  \<^verbatim>\<open>ready\<close> event.
\<close>

definition starting :: state where
  "starting = \<lparr>client = Some 0, clientReady = False, constructed = 1\<rparr>"

definition serving :: state where
  "serving = \<lparr>client = Some 0, clientReady = True, constructed = 1\<rparr>"

text \<open>The state after a \<^verbatim>\<open>POST /initialize\<close> that arrived before the first \<^verbatim>\<open>ready\<close>.\<close>

definition second :: state where
  "second = \<lparr>client = Some 1, clientReady = False, constructed = 2\<rparr>"

definition request_with :: "jsval \<Rightarrow> request" where
  "request_with b =
     \<lparr>body = b, params = [], query = [], upload = Inr None,
      now = ''2026-01-01T00:00:00.000Z''\<rparr>"

definition lib_returning :: "jsval \<Rightarrow> lib" where
  "lib_returning v tr c = Inr v"

definition lib_throwing :: "string \<Rightarrow> lib" where
  "lib_throwing m tr c = Inl m"

text \<open>
  A one-on-one chat, an incoming message, and an environment that resolves every
  lookup by id to one of them and answers every other call with \<^verbatim>\<open>undefined\<close>.
\<close>

definition private_chat :: jsval where
  "private_chat =
     JObj [(''id'', JObj [(''_serialized'', JStr ''491701@c.us'')]),
           (''name'', JStr ''Ada''),
           (''isGroup'', JBool False),
           (''unreadCount'', JNum 2),
           (''timestamp'', JNum 1700000000)]"

definition incoming_message :: jsval where
  "incoming_message =
     JObj [(''id'', JObj [(''_serialized'', JStr ''false_491701@c.us_3A'')]),
           (''body'', JStr ''hello''),
           (''fromMe'', JBool False)]"

definition own_message :: jsval where
  "own_message =
     JObj [(''id'', JObj [(''_serialized'', JStr ''true_491701@c.us_3B'')]),
           (''body'', JStr ''hi''),
           (''fromMe'', JBool True)]"

fun lib_demo :: "jsval \<Rightarrow> lib" where
  "lib_demo msg tr (Method (OnClient h) name args) =
     (if name = ''getChatById'' then Inr private_chat
      else if name = ''getMessageById'' then Inr msg
      else if name = ''getChats'' then Inr (JArr [private_chat])
      else Inr JUndefined)"
| "lib_demo msg tr (Method (OnObject obj) name args) =
     (if name = ''getLabels'' then Inr (JArr [JObj [(''id'', JStr ''7'')]]) else Inr JUndefined)"
| "lib_demo msg tr c = Inr JUndefined"

section \<open>Properties\<close>

subsection \<open>Auxiliary facts\<close>

lemma startsWith_append: "startsWith (p @ s) p"
  by (induction p) auto

lemma str_includes_append: "str_includes (s @ p) p"
proof (induction s)
  case Nil
  show ?case using startsWith_append[of p "[]"] by (cases p) auto
next
  case (Cons c s)
  then show ?case by simp
qed

lemma post_initialize_flag: "clientReady (fst (snd (post_initialize s lib))) = clientReady s"
  by (simp add: post_initialize_def initializeClient_def split: prod.splits sum.splits)

lemma try_catch_state: "fst (snd (try_catch s lib p)) = s"
  by (simp add: try_catch_def split: prod.splits sum.splits)

lemma app_flag: "clientReady (fst (snd (app ep s lib req))) = clientReady s"
  by (cases ep)
     (simp_all add: post_initialize_flag try_catch_state checkClientReady_def
        upload_single_def split: sum.splits)

lemmas body_defs =
  send_message_def reply_message_def set_subject_def set_description_def leave_group_def
  join_group_def add_members_def create_group_def group_info_def get_chats_def get_info_def
  send_location_def set_status_def mention_users_def mention_groups_def delete_message_def
  pin_chat_def archive_chat_def mute_chat_def send_typing_def send_recording_def
  clear_state_def send_buttons_def send_list_def send_reaction_def send_poll_def
  edit_message_def update_labels_def add_labels_def remove_labels_def approve_request_def
  reject_request_def pin_message_def unpin_message_def device_count_def sync_history_def
  get_statuses_def send_media_def send_vcard_def change_sync_def download_media_def
  message_info_def quoted_message_def jump_to_message_def get_contacts_def get_chat_def
  get_messages_def send_preview_def

lemmas step_defs =
  try_catch_def destructure_def destructure_default_def lift_def get_def client_call_def
  client_read_def method_call_def read_member_def nullish_def checkClientReady_def
  upload_single_def req_file_def default_to_def body_parsers_def server_def Let_def

lemma run_throws:
  "run p lib tr = (out, tr') \<Longrightarrow>
     \<exists>ext. tr' = tr @ ext \<and>
       (\<forall>i m. i < length ext \<and> lib (tr @ take i ext) (ext ! i) = Inl m \<longrightarrow>
          Suc i = length ext \<and> out = Inl m)"
proof (induction p arbitrary: tr)
  case (Done r)
  then show ?case by simp
next
  case (Throw m)
  then show ?case by simp
next
  case (Call c k)
  show ?case
  proof (cases "lib tr c")
    case (Inl m0)
    with Call.prems have "tr' = tr @ [c]" "out = Inl m0" by auto
    with Inl show ?thesis by auto
  next
    case (Inr v)
    with Call.prems have "run (k v) lib (tr @ [c]) = (out, tr')" by simp
    from Call.IH[OF _ this] obtain ext where
      ext: "tr' = (tr @ [c]) @ ext"
      and stop: "\<forall>i m. i < length ext \<and> lib ((tr @ [c]) @ take i ext) (ext ! i) = Inl m \<longrightarrow>
          Suc i = length ext \<and> out = Inl m"
      by blast
    have "\<forall>i m. i < length (c # ext) \<and> lib (tr @ take i (c # ext)) ((c # ext) ! i) = Inl m \<longrightarrow>
          Suc i = length (c # ext) \<and> out = Inl m"
    proof (intro allI impI)
      fix i m
      assume a: "i < length (c # ext) \<and> lib (tr @ take i (c # ext)) ((c # ext) ! i) = Inl m"
      show "Suc i = length (c # ext) \<and> out = Inl m"
      proof (cases i)
        case 0
        with a Inr show ?thesis by simp
      next
        case (Suc j)
        with a have "j < length ext \<and> lib ((tr @ [c]) @ take j ext) (ext ! j) = Inl m" by simp
        with stop have "Suc j = length ext \<and> out = Inl m" by blast
        with Suc show ?thesis by simp
      qed
    qed
    with ext show ?thesis by (intro exI[of _ "c # ext"]) simp
  qed
qed






lemma try_body_guarded: "guarded ep \<Longrightarrow> \<exists>p. try_body ep s req = Some p"
  by (cases ep) (simp_all add: guarded_def)

lemma handler_try_body: "try_body ep s req = Some p \<Longrightarrow> handler ep s lib req = try_catch s lib p"
  by (cases ep) auto



lemma bodies_addressed:
  "try_body ep s req = Some p \<Longrightarrow>
     all_calls p (\<lambda>c. addressed_to (client s) c \<and> \<not> ends_session c)"
  by (cases ep)
     (auto simp: body_defs destructure_def destructure_default_def lift_def get_def
        client_call_def client_read_def method_call_def addressed_to_def Let_def
        split: sum.splits option.splits)


lemma required_named:
  "\<forall>fld\<in>set (required ep). str_includes (required_message ep) (fst fld)"
  by (cases ep) simp_all


lemma validation:
  assumes "\<not> nullish (body req)" "\<exists>fld\<in>set (required ep). missing req fld"
  shows "handler ep s lib req = (res_status_json 400 (error_body (required_message ep)), s, [])"
  using assms
  by (cases ep)
     (auto simp: body_defs try_catch_def destructure_def Let_def split: option.splits)


lemma try_catch_throws:
  assumes "try_catch s lib p = (r, s', tr)" "i < length tr" "lib (take i tr) (tr ! i) = Inl m"
  shows "Suc i = length tr \<and> r = res_status_json 500 (error_body m)"
proof -
  obtain out tr0 where run: "run p lib [] = (out, tr0)" by (cases "run p lib []")
  from assms(1) run have tr: "tr0 = tr" by (auto simp: try_catch_def split: sum.splits)
  from run_throws[OF run] assms(2,3) tr have "Suc i = length tr \<and> out = Inl m" by auto
  with assms(1) run show ?thesis by (auto simp: try_catch_def)
qed




lemma ready_passes:
  "guarded ep \<Longrightarrow> clientReady s \<Longrightarrow>
     app ep s lib req =
       (if ep = POST_send_media then upload_single s req (handler ep s lib req)
        else handler ep s lib req)"
  by (cases ep) (simp_all add: guarded_def checkClientReady_def)

lemma app_cases:
  assumes "guarded ep"
  shows "app ep s lib req = handler ep s lib req \<or>
         app ep s lib req = (res_status_json 503 (error_body ''WhatsApp client not ready''), s, []) \<or>
         app ep s lib req = (res_status_json 500 (error_body ''Internal server error''), s, [])"
  using assms
  by (cases ep)
     (auto simp: guarded_def checkClientReady_def upload_single_def error_middleware_def
        split: sum.splits)

lemma all_calls_run:
  "all_calls p P \<Longrightarrow> run p lib tr = (out, tr') \<Longrightarrow> \<forall>c\<in>set tr. P c \<Longrightarrow> \<forall>c\<in>set tr'. P c"
proof (induction p arbitrary: tr)
  case (Call c k)
  show ?case
  proof (cases "lib tr c")
    case (Inl m0)
    with Call.prems show ?thesis by auto
  next
    case (Inr v)
    with Call.prems have r: "run (k v) lib (tr @ [c]) = (out, tr')" by simp
    from Call.prems have a: "all_calls (k v) P" and "\<forall>c\<in>set (tr @ [c]). P c" by auto
    from Call.IH[OF _ a r this(2)] show ?thesis by simp
  qed
qed auto


lemma server_unparsed:
  "server ep s lib (Inl m) = (res_status_json 500 (error_body ''Internal server error''), s, [])"
  by (simp add: server_def body_parsers_def error_middleware_def)

lemma handler_addressed:
  assumes "guarded ep" "handler ep s lib req = (r, s', tr)"
  shows "s' = s \<and> (\<forall>c\<in>set tr. addressed_to (client s) c \<and> \<not> ends_session c)"
proof -
  from try_body_guarded[OF assms(1)] obtain p where p: "try_body ep s req = Some p" by blast
  obtain out tr0 where run: "run p lib [] = (out, tr0)" by (cases "run p lib []")
  from all_calls_run[OF bodies_addressed[OF p] run]
  have "\<forall>c\<in>set tr0. addressed_to (client s) c \<and> \<not> ends_session c" by simp
  with assms(2) handler_try_body[OF p, of lib] run show ?thesis
    by (cases out) (auto simp: try_catch_def)
qed

lemma app_addressed:
  assumes "guarded ep" "app ep s lib req = (r, s', tr)"
  shows "s' = s \<and> (\<forall>c\<in>set tr. addressed_to (client s) c \<and> \<not> ends_session c)"
  using app_cases[OF assms(1), of s lib req]
proof (elim disjE)
  assume "app ep s lib req = handler ep s lib req"
  with assms(2) have "handler ep s lib req = (r, s', tr)" by simp
  from handler_addressed[OF assms(1) this] show ?thesis .
next
  assume "app ep s lib req =
    (res_status_json 503 (error_body ''WhatsApp client not ready''), s, [])"
  with assms(2) show ?thesis by simp
next
  assume "app ep s lib req =
    (res_status_json 500 (error_body ''Internal server error''), s, [])"
  with assms(2) show ?thesis by simp
qed

lemma construct_client_run:
  "run construct_client lib [] = (out, tr) \<Longrightarrow>
     (\<forall>c\<in>set tr. client_of c = None \<and> \<not> ends_session c) \<and>
     (\<forall>c. out = Inr c \<longrightarrow>
        (\<exists>auth. lib [] (New ''LocalAuth'' []) = Inr auth \<and>
                lib [New ''LocalAuth'' []] (New ''Client'' [client_options auth]) = Inr c \<and>
                tr = [New ''LocalAuth'' [], New ''Client'' [client_options auth]]))"
  by (auto simp: construct_client_def client_options_def split: sum.splits)

lemma wiring_calls:
  "\<forall>c\<in>set (wiring h). client_of c = Some h \<and> \<not> ends_session c"
  by (simp add: wiring_def)

lemma post_initialize_addressed:
  assumes "post_initialize s lib = (r, s', tr)" "\<exists>h. client s = Some h \<and> constructed s = Suc h"
  shows "(\<exists>h. client s' = Some h \<and> constructed s' = Suc h) \<and> constructed s \<le> constructed s' \<and>
         (\<forall>c\<in>set tr. addressed_to (client s') c \<and> \<not> ends_session c)"
proof (cases "clientReady s")
  case True
  with assms show ?thesis by (auto simp: post_initialize_def)
next
  case False
  obtain out tr0 where run: "run construct_client lib [] = (out, tr0)"
    by (cases "run construct_client lib []")
  from construct_client_run[OF run]
  have tr0: "\<forall>c\<in>set tr0. addressed_to (client s') c \<and> \<not> ends_session c"
    by (simp add: addressed_to_def)
  show ?thesis
  proof (cases out)
    case (Inl m)
    with False run assms tr0 show ?thesis
      by (auto simp: post_initialize_def initializeClient_def)
  next
    case (Inr v)
    with False run assms have
      s': "s' = s\<lparr>client := Some (constructed s), constructed := Suc (constructed s)\<rparr>"
      and tr: "tr = tr0 @ wiring (constructed s)"
      by (auto simp: post_initialize_def initializeClient_def)
    from s' wiring_calls[of "constructed s"]
    have "\<forall>c\<in>set (wiring (constructed s)). addressed_to (client s') c \<and> \<not> ends_session c"
      by (simp add: addressed_to_def)
    with tr0 tr s' show ?thesis by auto
  qed
qed

lemma app_invariant:
  assumes "app ep s lib req = (r, s', tr)" "\<exists>h. client s = Some h \<and> constructed s = Suc h"
  shows "(\<exists>h. client s' = Some h \<and> constructed s' = Suc h) \<and> constructed s \<le> constructed s' \<and>
         (\<forall>c\<in>set tr. addressed_to (client s') c \<and> \<not> ends_session c)"
proof (cases "guarded ep")
  case True
  from app_addressed[OF True assms(1)] assms(2) show ?thesis by auto
next
  case False
  then consider "ep = GET_status" | "ep = POST_initialize" by (auto simp: guarded_def)
  then show ?thesis
  proof cases
    case 1
    with assms show ?thesis by auto
  next
    case 2
    with assms(1) have "post_initialize s lib = (r, s', tr)" by simp
    from post_initialize_addressed[OF this assms(2)] show ?thesis .
  qed
qed

lemma on_event_invariant:
  assumes "on_event s lib e = (s', tr, rejection)" "\<exists>h. client s = Some h \<and> constructed s = Suc h"
  shows "(\<exists>h. client s' = Some h \<and> constructed s' = Suc h) \<and> constructed s' = constructed s \<and>
         (\<forall>c\<in>set tr. addressed_to (client s') c \<and> \<not> ends_session c)"
  using assms
  by (cases e)
     (auto simp: on_event_def client_call_def addressed_to_def split: sum.splits)

lemma reachable_invariant: "reachable s \<Longrightarrow> \<exists>h. client s = Some h \<and> constructed s = Suc h"
proof (induction rule: reachable.induct)
  case (startup lib u s tr)
  then show ?case
    by (auto simp: initializeClient_def initial_def split: prod.splits sum.splits)
next
  case (request s ep lib req r s' tr)
  from app_invariant[OF request.hyps(2) request.IH] show ?case by blast
next
  case (event s lib e s' tr rejection)
  from on_event_invariant[OF event.hyps(2) event.IH] show ?case by blast
qed

lemma startup_starting:
  "initializeClient initial (lib_returning JUndefined) =
     (Inr (), starting,
      [New ''LocalAuth'' [], New ''Client'' [client_options JUndefined]] @ wiring 0)"
  by (simp add: initializeClient_def construct_client_def client_options_def lib_returning_def
        initial_def starting_def)

lemma reachable_starting: "reachable starting"
  using startup_starting by (rule reachable.startup)

lemma reachable_serving: "reachable serving"
proof -
  have "on_event starting (lib_returning JUndefined) Ready =
          (serving, [Method (OnClient 0) ''getWWebVersion'' []], None)"
    by (simp add: on_event_def client_call_def lib_returning_def starting_def serving_def)
  with reachable_starting show ?thesis by (rule reachable.event)
qed

subsection \<open>The readiness check\<close>




subsection \<open>The readiness flag\<close>

text \<open>
  Claim C2. The readiness flag changes only under client lifecycle events: after
  \<^verbatim>\<open>ready\<close> it is true, after \<^verbatim>\<open>auth_failure\<close> or \<^verbatim>\<open>disconnected\<close> it is false, and
  every other consumed event (\<^verbatim>\<open>loading_screen\<close>, \<^verbatim>\<open>qr\<close>, \<^verbatim>\<open>code\<close>,
  \<^verbatim>\<open>authenticated\<close>, \<^verbatim>\<open>message\<close>) leaves it as it was; and no request to any route,
  whatever the environment answers, changes it.
\<close>

theorem C2_flag_evolution:
  "clientReady (fst (on_event s lib e)) =
     (if e = Ready then True
      else if e = Auth_failure \<or> e = Disconnected then False
      else clientReady s) \<and>
   clientReady (fst (snd (app ep s lib req))) = clientReady s"
  by (cases e) (simp_all add: on_event_def app_flag split: prod.splits sum.splits)

theorem C2_flag_evolution_witness:
  "clientReady (fst (on_event starting (lib_returning (JStr ''2.3000'')) Ready)) \<and>
   \<not> clientReady (fst (on_event serving (lib_returning JUndefined) Disconnected)) \<and>
   \<not> clientReady (fst (on_event starting (lib_returning JUndefined) Authenticated)) \<and>
   \<not> clientReady (fst (snd (app POST_initialize starting (lib_returning JUndefined)
                               (request_with (JObj [])))))"
  using C2_flag_evolution[of starting "lib_returning (JStr ''2.3000'')" Ready
          POST_initialize "request_with (JObj [])"]
        C2_flag_evolution[of serving "lib_returning JUndefined" Disconnected
          POST_initialize "request_with (JObj [])"]
        C2_flag_evolution[of starting "lib_returning JUndefined" Authenticated
          POST_initialize "request_with (JObj [])"]
  by (simp add: starting_def serving_def)

subsection \<open>Exceptions\<close>

text \<open>
  Claim C3, as amended. In every route guarded by the readiness check the handler's
  body runs inside one \<^verbatim>\<open>try\<close>, and whatever exception ends that body is answered
  with status 500 and a JSON body echoing the exception's message, never with 400:
  \<^item> if the environment answers a call with an exception, that call is the last one of
    the trace (nothing is retried, no further call is made) and the response echoes
    its message;
  \<^item> the same holds of every exception with which the body of the route ends,
    whatever raised it;
  \<^item> in particular a request without a body is answered 500 with the engine's
    TypeError on destructuring, and a \<^verbatim>\<open>to\<close> that is neither a string nor an array
    with 500 and \<^verbatim>\<open>to.includes is not a function\<close>, both before any call.

  An exception raised outside a \<^verbatim>\<open>try\<close> does not have its message echoed. Three
  of them reach the error-handling middleware, which answers 500 with the fixed body
  \<^verbatim>\<open>{"error": "Internal server error"}\<close>: a body the parsers refuse, an error of the
  upload middleware of \<^verbatim>\<open>/send-media\<close>, and a constructor that throws in
  \<^verbatim>\<open>POST /initialize\<close>. The \<^verbatim>\<open>client.initialize()\<close> that \<^verbatim>\<open>POST /initialize\<close>
  starts is not awaited: once the constructors have returned, the answer is 200
  \<^verbatim>\<open>Client initialization started\<close> whatever becomes of that call. And an exception
  of \<^verbatim>\<open>client.getWWebVersion()\<close> in the \<^verbatim>\<open>ready\<close> listener is answered by nobody: it
  is left as an unhandled rejection, after the flag has been set.
\<close>

theorem C3_exceptions:
  "(guarded ep \<and> app ep s lib req = (r, s', tr) \<longrightarrow>
      (\<forall>i m. i < length tr \<and> lib (take i tr) (tr ! i) = Inl m \<longrightarrow>
         Suc i = length tr \<and> r = res_status_json 500 (error_body m))) \<and>
   (clientReady s \<and> (ep = POST_send_media \<longrightarrow> (\<exists>f. upload req = Inr f)) \<and>
    try_body ep s req = Some p \<and> run p lib [] = (Inl m, tr0) \<longrightarrow>
      app ep s lib req = (res_status_json 500 (error_body m), s, tr0)) \<and>
   (clientReady s \<and> (ep = POST_send_media \<longrightarrow> (\<exists>f. upload req = Inr f)) \<and>
    required ep \<noteq> [] \<and> nullish (body req) \<longrightarrow>
      app ep s lib req =
        (res_status_json 500 (error_body
           (''Cannot destructure property '' @ quoted (fst (hd (required ep))) @ '' of '' @
            quoted ''req.body'' @ '' as it is '' @ js_toString (body req) @ ''.'')), s, [])) \<and>
   (clientReady s \<and> nullish (body req) \<longrightarrow>
      app POST_change_sync s lib req =
        (res_status_json 500 (error_body (cannot_read (body req) ''enabled'')), s, [])) \<and>
   (clientReady s \<and> (ep = POST_send_media \<longrightarrow> (\<exists>f. upload req = Inr f)) \<and>
    (ep = POST_send_message \<or> ep = POST_send_location \<or> ep = POST_send_buttons \<or>
     ep = POST_send_list \<or> ep = POST_send_poll \<or> ep = POST_send_media \<or>
     ep = POST_send_vcard \<or> ep = POST_send_preview) \<and>
    \<not> nullish (body req) \<and> (\<forall>fld\<in>set (required ep). \<not> missing req fld) \<and>
    \<not> isString (getprop (body req) ''to'') \<and> \<not> isArray (getprop (body req) ''to'') \<longrightarrow>
      app ep s lib req =
        (res_status_json 500 (error_body ''to.includes is not a function''), s, [])) \<and>
   server ep s lib (Inl e) = (res_status_json 500 (error_body ''Internal server error''), s, []) \<and>
   (clientReady s \<and> upload req = Inl e \<longrightarrow> app POST_send_media s lib req = (res_status_json 500 (error_body ''Internal server error''), s, [])) \<and>
   (\<not> clientReady s \<and> run construct_client lib [] = (Inl e, tr1) \<longrightarrow>
      app POST_initialize s lib req = (res_status_json 500 (error_body ''Internal server error''), s, tr1)) \<and>
   (\<not> clientReady s \<and> run construct_client lib [] = (Inr c, tr1) \<longrightarrow>
      app POST_initialize s lib req =
        (res_json (JObj [(''message'', JStr ''Client initialization started'')]),
         s\<lparr>client := Some (constructed s), constructed := Suc (constructed s)\<rparr>,
         tr1 @ wiring (constructed s))) \<and>
   (client s = Some h \<and> lib [] (Method (OnClient h) ''getWWebVersion'' []) = Inl e \<longrightarrow>
      on_event s lib Ready =
        (s\<lparr>clientReady := True\<rparr>, [Method (OnClient h) ''getWWebVersion'' []], Some e))"
proof (intro conjI impI)
  assume a: "guarded ep \<and> app ep s lib req = (r, s', tr)"
  show "\<forall>i m. i < length tr \<and> lib (take i tr) (tr ! i) = Inl m \<longrightarrow>
         Suc i = length tr \<and> r = res_status_json 500 (error_body m)"
  proof (intro allI impI)
    fix i m
    assume b: "i < length tr \<and> lib (take i tr) (tr ! i) = Inl m"
    then have ne: "tr \<noteq> []" by auto
    from a app_cases[of ep s lib req] ne have h: "handler ep s lib req = (r, s', tr)" by auto
    from a try_body_guarded[of ep s req] obtain p where "try_body ep s req = Some p" by blast
    from handler_try_body[OF this, of lib] h have "try_catch s lib p = (r, s', tr)" by simp
    from try_catch_throws[OF this] b
    show "Suc i = length tr \<and> r = res_status_json 500 (error_body m)" by blast
  qed
next
  assume a: "clientReady s \<and> (ep = POST_send_media \<longrightarrow> (\<exists>f. upload req = Inr f)) \<and>
    try_body ep s req = Some p \<and> run p lib [] = (Inl m, tr0)"
  then have g: "guarded ep" by (cases ep) (simp_all add: guarded_def)
  from a have "app ep s lib req = handler ep s lib req"
    using ready_passes[OF g, of s lib req] by (auto simp: upload_single_def)
  with a handler_try_body[of ep s req p lib]
  show "app ep s lib req = (res_status_json 500 (error_body m), s, tr0)"
    by (simp add: try_catch_def)
next
  assume a: "clientReady s \<and> (ep = POST_send_media \<longrightarrow> (\<exists>f. upload req = Inr f)) \<and>
    required ep \<noteq> [] \<and> nullish (body req)"
  then show "app ep s lib req =
        (res_status_json 500 (error_body
           (''Cannot destructure property '' @ quoted (fst (hd (required ep))) @ '' of '' @
            quoted ''req.body'' @ '' as it is '' @ js_toString (body req) @ ''.'')), s, [])"
    by (cases ep)
       (auto simp: body_defs checkClientReady_def upload_single_def try_catch_def
          destructure_def)
next
  assume "clientReady s \<and> nullish (body req)"
  then show "app POST_change_sync s lib req =
        (res_status_json 500 (error_body (cannot_read (body req) ''enabled'')), s, [])"
    by (simp add: change_sync_def checkClientReady_def try_catch_def destructure_default_def)
next
  assume a: "clientReady s \<and> (ep = POST_send_media \<longrightarrow> (\<exists>f. upload req = Inr f)) \<and>
    (ep = POST_send_message \<or> ep = POST_send_location \<or> ep = POST_send_buttons \<or>
     ep = POST_send_list \<or> ep = POST_send_poll \<or> ep = POST_send_media \<or>
     ep = POST_send_vcard \<or> ep = POST_send_preview) \<and>
    \<not> nullish (body req) \<and> (\<forall>fld\<in>set (required ep). \<not> missing req fld) \<and>
    \<not> isString (getprop (body req) ''to'') \<and> \<not> isArray (getprop (body req) ''to'')"
  then have t: "chat_id ''to'' (getprop (body req) ''to'') = Inl ''to.includes is not a function''"
    by (cases "getprop (body req) ''to''") (auto simp: not_a_function_def)
  from a show "app ep s lib req =
        (res_status_json 500 (error_body ''to.includes is not a function''), s, [])"
    by (elim conjE disjE)
       (auto simp: t send_message_def send_location_def send_buttons_def send_list_def
          send_poll_def send_media_def send_vcard_def send_preview_def checkClientReady_def
          upload_single_def try_catch_def destructure_def lift_def Let_def
          split: option.splits)
next
  show "server ep s lib (Inl e) = (res_status_json 500 (error_body ''Internal server error''), s, [])"
    by (rule server_unparsed)
next
  assume "clientReady s \<and> upload req = Inl e"
  then show "app POST_send_media s lib req = (res_status_json 500 (error_body ''Internal server error''), s, [])"
    by (simp add: checkClientReady_def upload_single_def error_middleware_def)
next
  assume "\<not> clientReady s \<and> run construct_client lib [] = (Inl e, tr1)"
  then show "app POST_initialize s lib req = (res_status_json 500 (error_body ''Internal server error''), s, tr1)"
    by (simp add: post_initialize_def initializeClient_def error_middleware_def)
next
  assume "\<not> clientReady s \<and> run construct_client lib [] = (Inr c, tr1)"
  then show "app POST_initialize s lib req =
        (res_json (JObj [(''message'', JStr ''Client initialization started'')]),
         s\<lparr>client := Some (constructed s), constructed := Suc (constructed s)\<rparr>,
         tr1 @ wiring (constructed s))"
    by (simp add: post_initialize_def initializeClient_def)
next
  assume "client s = Some h \<and> lib [] (Method (OnClient h) ''getWWebVersion'' []) = Inl e"
  then show "on_event s lib Ready =
        (s\<lparr>clientReady := True\<rparr>, [Method (OnClient h) ''getWWebVersion'' []], Some e)"
    by (simp add: on_event_def client_call_def)
qed

text \<open>
  Claim C3 as stated fails: a body that does not parse, an upload with an unexpected
  field, and a client constructor that throws during \<^verbatim>\<open>POST /initialize\<close>, are all
  answered with \<^verbatim>\<open>Internal server error\<close>, not with the message of the exception.
\<close>

theorem C3_exceptions_counterexample:
  "server POST_send_message serving (lib_returning JUndefined)
       (Inl ''Unexpected end of JSON input'') = (res_status_json 500 (error_body ''Internal server error''), serving, []) \<and>
   app POST_send_media serving (lib_returning JUndefined)
       ((request_with (JObj [(''to'', JStr ''491701'')]))\<lparr>upload := Inl ''Unexpected field''\<rparr>) =
     (res_status_json 500 (error_body ''Internal server error''), serving, []) \<and>
   app POST_initialize starting (lib_throwing ''Failed to launch the browser process'')
       (request_with (JObj [])) =
     (res_status_json 500 (error_body ''Internal server error''), starting, [New ''LocalAuth'' []]) \<and>
   lib_throwing ''Failed to launch the browser process'' [] (New ''LocalAuth'' []) =
     Inl ''Failed to launch the browser process'' \<and>
   error_body ''Internal server error'' \<noteq> error_body ''Unexpected end of JSON input'' \<and>
   error_body ''Internal server error'' \<noteq> error_body ''Unexpected field'' \<and>
   error_body ''Internal server error'' \<noteq> error_body ''Failed to launch the browser process''"
  by (simp add: step_defs serving_def starting_def request_with_def post_initialize_def
        initializeClient_def construct_client_def error_middleware_def lib_throwing_def
        error_body_def)

theorem C3_exceptions_witness:
  "guarded POST_send_message \<and>
   app POST_send_message serving (lib_throwing ''Evaluation failed'')
       (request_with (JObj [(''to'', JStr ''491701''), (''message'', JStr ''hi'')])) =
     (res_status_json 500 (error_body ''Evaluation failed''), serving,
      [Method (OnClient 0) ''sendMessage'' [JStr ''491701@c.us'', JStr ''hi'']]) \<and>
   app POST_send_message serving (lib_returning JUndefined)
       (request_with (JObj [(''to'', JNum 491701), (''message'', JStr ''hi'')])) =
     (res_status_json 500 (error_body ''to.includes is not a function''), serving, [])"
proof -
  let ?req = "request_with (JObj [(''to'', JStr ''491701''), (''message'', JStr ''hi'')])"
  let ?bad = "request_with (JObj [(''to'', JNum 491701), (''message'', JStr ''hi'')])"
  let ?tr = "[Method (OnClient 0) ''sendMessage'' [JStr ''491701@c.us'', JStr ''hi'']]"
  note all = C3_exceptions[where ep = POST_send_message and s = serving]
  have g: "guarded POST_send_message" by (simp add: guarded_def)
  have run: "run (send_message serving ?req) (lib_throwing ''Evaluation failed'') [] =
               (Inl ''Evaluation failed'', ?tr)"
    by (simp add: send_message_def step_defs serving_def request_with_def normalize_def
          lib_throwing_def)
  have 1: "clientReady serving \<and>
    (POST_send_message = POST_send_media \<longrightarrow> (\<exists>f. upload ?req = Inr f)) \<and>
    try_body POST_send_message serving ?req = Some (send_message serving ?req) \<and>
    run (send_message serving ?req) (lib_throwing ''Evaluation failed'') [] =
      (Inl ''Evaluation failed'', ?tr)"
    using run by (simp add: serving_def)
  have 2: "clientReady serving \<and>
    (POST_send_message = POST_send_media \<longrightarrow> (\<exists>f. upload ?bad = Inr f)) \<and>
    (POST_send_message = POST_send_message \<or> POST_send_message = POST_send_location \<or>
     POST_send_message = POST_send_buttons \<or> POST_send_message = POST_send_list \<or>
     POST_send_message = POST_send_poll \<or> POST_send_message = POST_send_media \<or>
     POST_send_message = POST_send_vcard \<or> POST_send_message = POST_send_preview) \<and>
    \<not> nullish (body ?bad) \<and> (\<forall>fld\<in>set (required POST_send_message). \<not> missing ?bad fld) \<and>
    \<not> isString (getprop (body ?bad) ''to'') \<and> \<not> isArray (getprop (body ?bad) ''to'')"
    by (simp add: serving_def request_with_def nullish_def)
  note echo = all[where req = ?req and lib = "lib_throwing ''Evaluation failed''"
      and p = "send_message serving ?req" and m = "''Evaluation failed''" and ?tr0.0 = ?tr,
      THEN conjunct2, THEN conjunct1, THEN mp, OF 1]
  note bad = all[where req = ?bad and lib = "lib_returning JUndefined",
      THEN conjunct2, THEN conjunct2, THEN conjunct2, THEN conjunct2, THEN conjunct1,
      THEN mp, OF 2]
  from g echo bad show ?thesis by simp
qed

subsection \<open>Required fields\<close>

text \<open>
  Claim C4, as amended. While the readiness flag is true, for every route that
  requires fields, a request with a body in which a required field is missing (absent
  or otherwise falsy, or, for an array field, not an array; for \<^verbatim>\<open>/send-media\<close>, once
  the upload middleware has passed the request on) is answered with 400 and the
  route's fixed error message, the state is untouched and no call is made (the trace
  is empty); and the message names every required field.
\<close>

theorem C4_missing_field:
  assumes "clientReady s"
    and "\<not> nullish (body req)"
    and "ep = POST_send_media \<longrightarrow> (\<exists>f. upload req = Inr f)"
    and "\<exists>fld\<in>set (required ep). missing req fld"
  shows "app ep s lib req = (res_status_json 400 (error_body (required_message ep)), s, []) \<and>
         (\<forall>fld\<in>set (required ep). str_includes (required_message ep) (fst fld))"
proof -
  from assms(4) have "required ep \<noteq> []" by auto
  then have g: "guarded ep" by (cases ep) (simp_all add: guarded_def)
  have "app ep s lib req = handler ep s lib req"
  proof (cases "ep = POST_send_media")
    case True
    with assms(1,3) show ?thesis by (auto simp: checkClientReady_def upload_single_def)
  next
    case False
    with ready_passes[OF g assms(1), of lib req] show ?thesis by simp
  qed
  with validation[OF assms(2,4)] required_named show ?thesis by simp
qed

theorem C4_missing_field_witness:
  "clientReady serving \<and>
   missing (request_with (JObj [(''chatId'', JStr ''1203@g.us''), (''participants'', JStr ''491701'')]))
     (''participants'', ArrayField) \<and>
   app POST_add_members serving (lib_returning JUndefined)
       (request_with (JObj [(''chatId'', JStr ''1203@g.us''), (''participants'', JStr ''491701'')])) =
     (res_status_json 400 (error_body ''chatId and participants array are required''), serving, []) \<and>
   str_includes ''chatId and participants array are required'' ''chatId'' \<and>
   str_includes ''chatId and participants array are required'' ''participants''"
proof -
  let ?req = "request_with (JObj [(''chatId'', JStr ''1203@g.us''), (''participants'', JStr ''491701'')])"
  have a: "clientReady serving" by (simp add: serving_def)
  have b: "\<not> nullish (body ?req)" by (simp add: request_with_def nullish_def)
  have c: "POST_add_members = POST_send_media \<longrightarrow> (\<exists>f. upload ?req = Inr f)" by simp
  have m: "missing ?req (''participants'', ArrayField)" by (simp add: request_with_def)
  then have d: "\<exists>fld\<in>set (required POST_add_members). missing ?req fld" by simp
  from C4_missing_field[OF a b c d, of "lib_returning JUndefined"] a m show ?thesis by simp
qed

text \<open>
  Claim C4 as stated fails while the readiness flag is false: the readiness check
  answers 503 before the validation is reached.
\<close>

theorem C4_missing_field_counterexample:
  "missing (request_with (JObj [(''message'', JStr ''hi'')])) (''to'', Present) \<and>
   (''to'', Present) \<in> set (required POST_send_message) \<and>
   app POST_send_message starting (lib_returning JUndefined)
       (request_with (JObj [(''message'', JStr ''hi'')])) =
     (res_status_json 503 (error_body ''WhatsApp client not ready''), starting, []) \<and>
   status (res_status_json 503 (error_body ''WhatsApp client not ready'')) \<noteq> 400"
  by (simp add: request_with_def starting_def checkClientReady_def res_status_json_def)

subsection \<open>The shape of a handler\<close>




subsection \<open>Client handles\<close>

text \<open>
  Claim C6, as amended. \<^verbatim>\<open>POST /initialize\<close> while the readiness flag is true answers
  \<^verbatim>\<open>{"message": "Client already initialized"}\<close> without constructing a client (state
  unchanged, no call made). While the flag is false it constructs a new client from the
  library (\<^verbatim>\<open>new LocalAuth()\<close>, \<^verbatim>\<open>new Client(...)\<close>), puts it in the global in place of
  the one before, starts it and registers the eight listeners on it. No route and no
  listener ever calls \<^verbatim>\<open>destroy\<close> or \<^verbatim>\<open>logout\<close>, so the clients constructed before
  stay alive with their listeners registered, and their number never goes down. What
  holds in every reachable state is that the global holds exactly one handle, the one
  constructed last, and that every call a request or a listener makes on a client is
  addressed to that handle.
\<close>

theorem C6_client_handles:
  "(clientReady s \<longrightarrow>
      app POST_initialize s lib req =
        (res_json (JObj [(''message'', JStr ''Client already initialized'')]), s, [])) \<and>
   (\<not> clientReady s \<and> lib [] (New ''LocalAuth'' []) = Inr auth \<and>
    lib [New ''LocalAuth'' []] (New ''Client'' [client_options auth]) = Inr c \<longrightarrow>
      app POST_initialize s lib req =
        (res_json (JObj [(''message'', JStr ''Client initialization started'')]),
         s\<lparr>client := Some (constructed s), constructed := Suc (constructed s)\<rparr>,
         [New ''LocalAuth'' [], New ''Client'' [client_options auth]] @
         wiring (constructed s))) \<and>
   (app POST_initialize s lib req = (r0, s0, tr0) \<and> constructed s0 \<noteq> constructed s \<longrightarrow>
      (\<exists>auth. New ''Client'' [client_options auth] \<in> set tr0) \<and>
      client s0 = Some (constructed s) \<and> constructed s0 = Suc (constructed s)) \<and>
   (ep \<noteq> POST_initialize \<and> app ep s lib req = (r, s', tr) \<longrightarrow> s' = s) \<and>
   (reachable s \<longrightarrow> (\<exists>h. client s = Some h \<and> constructed s = Suc h)) \<and>
   (reachable s \<and> app ep s lib req = (r, s', tr) \<longrightarrow>
      reachable s' \<and> constructed s \<le> constructed s' \<and>
      (\<exists>h. client s' = Some h \<and> constructed s' = Suc h \<and>
           (\<forall>c\<in>set tr. (client_of c = None \<or> client_of c = Some h) \<and> \<not> ends_session c))) \<and>
   (reachable s \<and> on_event s lib e = (s'', tr', rejection) \<longrightarrow>
      reachable s'' \<and> constructed s'' = constructed s \<and>
      (\<exists>h. client s'' = Some h \<and> constructed s'' = Suc h \<and>
           (\<forall>c\<in>set tr'. (client_of c = None \<or> client_of c = Some h) \<and> \<not> ends_session c)))"
proof (intro conjI impI)
  assume "clientReady s"
  then show "app POST_initialize s lib req =
        (res_json (JObj [(''message'', JStr ''Client already initialized'')]), s, [])"
    by (simp add: post_initialize_def)
next
  assume "\<not> clientReady s \<and> lib [] (New ''LocalAuth'' []) = Inr auth \<and>
    lib [New ''LocalAuth'' []] (New ''Client'' [client_options auth]) = Inr c"
  then show "app POST_initialize s lib req =
        (res_json (JObj [(''message'', JStr ''Client initialization started'')]),
         s\<lparr>client := Some (constructed s), constructed := Suc (constructed s)\<rparr>,
         [New ''LocalAuth'' [], New ''Client'' [client_options auth]] @
         wiring (constructed s))"
    by (simp add: post_initialize_def initializeClient_def construct_client_def)
next
  assume a: "app POST_initialize s lib req = (r0, s0, tr0) \<and> constructed s0 \<noteq> constructed s"
  obtain out tr1 where run: "run construct_client lib [] = (out, tr1)"
    by (cases "run construct_client lib []")
  from a run have nr: "\<not> clientReady s" by (auto simp: post_initialize_def)
  from a run nr obtain v where v: "out = Inr v"
    by (cases out) (auto simp: post_initialize_def initializeClient_def)
  from a run nr v have
    s0: "s0 = s\<lparr>client := Some (constructed s), constructed := Suc (constructed s)\<rparr>"
    and tr0: "tr0 = tr1 @ wiring (constructed s)"
    by (auto simp: post_initialize_def initializeClient_def)
  from construct_client_run[OF run] v tr0
  show "\<exists>auth. New ''Client'' [client_options auth] \<in> set tr0" by auto
  from s0 show "client s0 = Some (constructed s)" by simp
  from s0 show "constructed s0 = Suc (constructed s)" by simp
next
  assume a: "ep \<noteq> POST_initialize \<and> app ep s lib req = (r, s', tr)"
  show "s' = s"
  proof (cases "guarded ep")
    case True
    from app_addressed[OF True] a show ?thesis by blast
  next
    case False
    with a have "ep = GET_status" by (simp add: guarded_def)
    with a show ?thesis by auto
  qed
next
  assume "reachable s"
  then show "\<exists>h. client s = Some h \<and> constructed s = Suc h" by (rule reachable_invariant)
next
  assume a: "reachable s \<and> app ep s lib req = (r, s', tr)"
  then show "reachable s'" by (auto intro: reachable.request)
  from a reachable_invariant have i: "\<exists>h. client s = Some h \<and> constructed s = Suc h" by blast
  from a have o: "app ep s lib req = (r, s', tr)" by simp
  from app_invariant[OF o i] show "constructed s \<le> constructed s'" by blast
  from app_invariant[OF o i]
  show "\<exists>h. client s' = Some h \<and> constructed s' = Suc h \<and>
           (\<forall>c\<in>set tr. (client_of c = None \<or> client_of c = Some h) \<and> \<not> ends_session c)"
    by (auto simp: addressed_to_def)
next
  assume a: "reachable s \<and> on_event s lib e = (s'', tr', rejection)"
  then show "reachable s''" by (auto intro: reachable.event)
  from a reachable_invariant have i: "\<exists>h. client s = Some h \<and> constructed s = Suc h" by blast
  from a have o: "on_event s lib e = (s'', tr', rejection)" by simp
  from on_event_invariant[OF o i] show "constructed s'' = constructed s" by blast
  from on_event_invariant[OF o i]
  show "\<exists>h. client s'' = Some h \<and> constructed s'' = Suc h \<and>
           (\<forall>c\<in>set tr'. (client_of c = None \<or> client_of c = Some h) \<and> \<not> ends_session c)"
    by (auto simp: addressed_to_def)
qed

text \<open>
  Claim C6 as stated fails: a \<^verbatim>\<open>POST /initialize\<close> that arrives before the first
  \<^verbatim>\<open>ready\<close> event finds the flag false and constructs a second client beside the one
  of the start-up. Both have been started and both have the \<^verbatim>\<open>ready\<close> listener
  registered, neither is ever destroyed, and a \<^verbatim>\<open>ready\<close> event then opens the routes
  while the global holds the second handle.
\<close>

theorem C6_client_handles_counterexample:
  "initializeClient initial (lib_returning JUndefined) =
     (Inr (), starting,
      [New ''LocalAuth'' [], New ''Client'' [client_options JUndefined]] @ wiring 0) \<and>
   \<not> clientReady starting \<and>
   app POST_initialize starting (lib_returning JUndefined) (request_with (JObj [])) =
     (res_json (JObj [(''message'', JStr ''Client initialization started'')]), second,
      [New ''LocalAuth'' [], New ''Client'' [client_options JUndefined]] @ wiring 1) \<and>
   Method (OnClient 0) ''initialize'' [] \<in> set (wiring 0) \<and>
   Method (OnClient 0) ''on'' [JStr ''ready''] \<in> set (wiring 0) \<and>
   Method (OnClient 1) ''initialize'' [] \<in> set (wiring 1) \<and>
   Method (OnClient 1) ''on'' [JStr ''ready''] \<in> set (wiring 1) \<and>
   constructed second = 2 \<and>
   reachable second \<and>
   on_event second (lib_returning JUndefined) Ready =
     (second\<lparr>clientReady := True\<rparr>, [Method (OnClient 1) ''getWWebVersion'' []], None)"
proof -
  have a: "app POST_initialize starting (lib_returning JUndefined) (request_with (JObj [])) =
     (res_json (JObj [(''message'', JStr ''Client initialization started'')]), second,
      [New ''LocalAuth'' [], New ''Client'' [client_options JUndefined]] @ wiring 1)"
    by (simp add: post_initialize_def initializeClient_def construct_client_def
          lib_returning_def starting_def second_def)
  from reachable_starting a have "reachable second" by (rule reachable.request)
  moreover have "on_event second (lib_returning JUndefined) Ready =
     (second\<lparr>clientReady := True\<rparr>, [Method (OnClient 1) ''getWWebVersion'' []], None)"
    by (simp add: on_event_def client_call_def lib_returning_def second_def)
  moreover have "Method (OnClient 0) ''initialize'' [] \<in> set (wiring 0) \<and>
   Method (OnClient 0) ''on'' [JStr ''ready''] \<in> set (wiring 0) \<and>
   Method (OnClient 1) ''initialize'' [] \<in> set (wiring 1) \<and>
   Method (OnClient 1) ''on'' [JStr ''ready''] \<in> set (wiring 1)"
    by (simp add: wiring_def event_name_def)
  ultimately show ?thesis using a startup_starting
    by (simp add: starting_def second_def)
qed

theorem C6_client_handles_witness:
  "clientReady serving \<and> reachable serving \<and>
   app POST_initialize serving (lib_returning JUndefined) (request_with (JObj [])) =
     (res_json (JObj [(''message'', JStr ''Client already initialized'')]), serving, []) \<and>
   \<not> clientReady starting \<and> reachable starting \<and>
   app POST_initialize starting (lib_returning JUndefined) (request_with (JObj [])) =
     (res_json (JObj [(''message'', JStr ''Client initialization started'')]), second,
      [New ''LocalAuth'' [], New ''Client'' [client_options JUndefined]] @ wiring 1) \<and>
   reachable second"
proof -
  let ?lib = "lib_returning JUndefined"
  let ?req = "request_with (JObj [])"
  let ?tr = "[New ''LocalAuth'' [], New ''Client'' [client_options JUndefined]] @ wiring 1"
  have a: "clientReady serving" by (simp add: serving_def)
  have b: "\<not> clientReady starting \<and> ?lib [] (New ''LocalAuth'' []) = Inr JUndefined \<and>
    ?lib [New ''LocalAuth'' []] (New ''Client'' [client_options JUndefined]) = Inr JUndefined"
    by (simp add: starting_def lib_returning_def)
  note ready = C6_client_handles[where s = serving and lib = ?lib and req = ?req,
      THEN conjunct1, THEN mp, OF a]
  note fresh = C6_client_handles[where s = starting and lib = ?lib and req = ?req
      and auth = JUndefined and c = JUndefined, THEN conjunct2, THEN conjunct1, THEN mp, OF b]
  from fresh have o: "app POST_initialize starting ?lib ?req = (res_json (JObj [(''message'', JStr ''Client initialization started'')]), second, ?tr)"
    by (simp add: starting_def second_def)
  with reachable_starting have c: "reachable starting \<and>
    app POST_initialize starting ?lib ?req = (res_json (JObj [(''message'', JStr ''Client initialization started'')]), second, ?tr)" by simp
  note step = C6_client_handles[where s = starting and lib = ?lib and req = ?req
      and ep = POST_initialize and r = "res_json (JObj [(''message'', JStr ''Client initialization started'')])" and s' = second and tr = ?tr,
      THEN conjunct2, THEN conjunct2, THEN conjunct2, THEN conjunct2, THEN conjunct2,
      THEN conjunct1, THEN mp, OF c]
  from step have "reachable second" by blast
  with a b ready o reachable_serving reachable_starting show ?thesis by simp
qed

subsection \<open>Serialising chats\<close>

lemma chat_summary_fields: "is_chat chat \<Longrightarrow> chat_summary chat = Inr (chat_fields chat)"
  by (simp add: is_chat_def chat_summary_def chat_fields_def read_member_def)

lemma map_throw_chats:
  "\<forall>chat\<in>set chats. is_chat chat \<Longrightarrow> map_throw chat_summary chats = Inr (map chat_fields chats)"
  by (induction chats) (simp_all add: chat_summary_fields)

text \<open>
  Claim C7. \<^verbatim>\<open>GET /chats\<close> only reads plain fields off the library's chat objects:
  whenever the library returns a list of chat objects, the response is 200 with the
  body \<^verbatim>\<open>{count, chats}\<close>, where \<^verbatim>\<open>count\<close> is the length of the list and \<^verbatim>\<open>chats\<close>
  holds, in the same order, one object \<^verbatim>\<open>{id, name, isGroup, unreadCount, timestamp}\<close>
  per chat with each field copied from the chat (\<^verbatim>\<open>id\<close> from \<^verbatim>\<open>chat.id._serialized\<close>);
  the only call made is \<^verbatim>\<open>getChats\<close>.
\<close>

theorem C7_get_chats:
  assumes "clientReady s"
    and "client s = Some h"
    and "lib [] (Method (OnClient h) ''getChats'' []) = Inr (JArr chats)"
    and "\<forall>chat\<in>set chats. is_chat chat"
  shows "app GET_chats s lib req =
           (res_json (JObj [(''count'', JNum (int (length chats))),
                            (''chats'', JArr (map chat_fields chats))]),
            s, [Method (OnClient h) ''getChats'' []])"
  using assms map_throw_chats[OF assms(4)]
  by (simp add: checkClientReady_def try_catch_def get_chats_def client_call_def lift_def
        array_map_def)

theorem C7_get_chats_witness:
  "is_chat private_chat \<and>
   app GET_chats serving (lib_demo own_message) (request_with JUndefined) =
     (res_json (JObj
        [(''count'', JNum 1),
         (''chats'', JArr [JObj [(''id'', JStr ''491701@c.us''),
                                 (''name'', JStr ''Ada''),
                                 (''isGroup'', JBool False),
                                 (''unreadCount'', JNum 2),
                                 (''timestamp'', JNum 1700000000)]])]),
      serving, [Method (OnClient 0) ''getChats'' []])"
proof -
  have a: "clientReady serving" and b: "client serving = Some 0" by (simp_all add: serving_def)
  have c: "lib_demo own_message [] (Method (OnClient 0) ''getChats'' []) = Inr (JArr [private_chat])"
    by simp
  have d: "\<forall>chat\<in>set [private_chat]. is_chat chat"
    by (simp add: is_chat_def private_chat_def nullish_def)
  from C7_get_chats[where s = serving and h = 0 and lib = "lib_demo own_message"
      and chats = "[private_chat]" and req = "request_with JUndefined", OF a b c d] d
  show ?thesis
    by (simp add: chat_fields_def private_chat_def)
qed

subsection \<open>Chat-id normalisation\<close>

lemma normalize_includes: "str_includes (normalize str) ''@c.us''"
  unfolding normalize_def using str_includes_append[of str "''@c.us''"] by auto

lemma map_throw_strings:
  "map_throw (chat_id var) (map JStr ps) = Inr (map (\<lambda>p. JStr (normalize p)) ps)"
  by (induction ps) simp_all

text \<open>
  Claim C8. The normalisation of the \<^verbatim>\<open>to\<close> field appends \<^verbatim>\<open>@c.us\<close> if and only if
  the string does not already contain it; it is idempotent and its result always
  contains \<^verbatim>\<open>@c.us\<close>. \<^verbatim>\<open>/send-message\<close> passes the normalised \<^verbatim>\<open>to\<close> to
  \<^verbatim>\<open>sendMessage\<close>, and \<^verbatim>\<open>/add-members\<close>, \<^verbatim>\<open>/create-group\<close> and \<^verbatim>\<open>/mention-users\<close>
  pass the library the array of participants or mentions with every string normalised
  in the same way.
\<close>

theorem C8_normalize:
  "normalize str = (if str_includes str ''@c.us'' then str else str @ ''@c.us'') \<and>
   normalize (normalize str) = normalize str \<and>
   str_includes (normalize str) ''@c.us'' \<and>
   array_map var (chat_id var') (JArr (map JStr ps)) = Inr (map (\<lambda>p. JStr (normalize p)) ps) \<and>
   (clientReady s \<and> client s = Some h \<and> getprop (body req) ''to'' = JStr str \<and> str \<noteq> [] \<and>
    truthy (getprop (body req) ''message'') \<longrightarrow>
      snd (snd (app POST_send_message s lib req)) =
        [Method (OnClient h) ''sendMessage'' [JStr (normalize str), getprop (body req) ''message'']]) \<and>
   (clientReady s \<and> client s = Some h \<and> truthy (getprop (body req) ''title'') \<and>
    getprop (body req) ''participants'' = JArr (map JStr ps) \<longrightarrow>
      snd (snd (app POST_create_group s lib req)) =
        [Method (OnClient h) ''createGroup''
           [getprop (body req) ''title'', JArr (map (\<lambda>p. JStr (normalize p)) ps)]]) \<and>
   (clientReady s \<and> client s = Some h \<and> truthy (getprop (body req) ''chatId'') \<and>
    getprop (body req) ''participants'' = JArr (map JStr ps) \<and>
    lib [] (Method (OnClient h) ''getChatById'' [getprop (body req) ''chatId'']) = Inr chat \<and>
    \<not> nullish chat \<longrightarrow>
      snd (snd (app POST_add_members s lib req)) =
        [Method (OnClient h) ''getChatById'' [getprop (body req) ''chatId''],
         Method (OnObject chat) ''addParticipants'' [JArr (map (\<lambda>p. JStr (normalize p)) ps)]]) \<and>
   (clientReady s \<and> client s = Some h \<and> truthy (getprop (body req) ''chatId'') \<and>
    truthy (getprop (body req) ''message'') \<and>
    getprop (body req) ''mentions'' = JArr (map JStr ps) \<and>
    lib [] (Method (OnClient h) ''getChatById'' [getprop (body req) ''chatId'']) = Inr chat \<and>
    \<not> nullish chat \<longrightarrow>
      snd (snd (app POST_mention_users s lib req)) =
        [Method (OnClient h) ''getChatById'' [getprop (body req) ''chatId''],
         Method (OnObject chat) ''sendMessage''
           [getprop (body req) ''message'',
            JObj [(''mentions'', JArr (map (\<lambda>p. JStr (normalize p)) ps))]]])"
proof (intro conjI impI)
  show "normalize str = (if str_includes str ''@c.us'' then str else str @ ''@c.us'')"
    by (simp add: normalize_def)
  show "normalize (normalize str) = normalize str"
    using normalize_includes[of str] by (simp add: normalize_def)
  show "str_includes (normalize str) ''@c.us''" by (rule normalize_includes)
  show "array_map var (chat_id var') (JArr (map JStr ps)) = Inr (map (\<lambda>p. JStr (normalize p)) ps)"
    by (simp add: array_map_def map_throw_strings)
next
  assume a: "clientReady s \<and> client s = Some h \<and> getprop (body req) ''to'' = JStr str \<and> str \<noteq> [] \<and>
    truthy (getprop (body req) ''message'')"
  then have "\<not> nullish (body req)" by (auto simp: nullish_def)
  with a show "snd (snd (app POST_send_message s lib req)) =
        [Method (OnClient h) ''sendMessage'' [JStr (normalize str), getprop (body req) ''message'']]"
    by (auto simp: checkClientReady_def try_catch_def send_message_def destructure_def lift_def
          get_def client_call_def Let_def split: sum.splits prod.splits)
next
  assume a: "clientReady s \<and> client s = Some h \<and> truthy (getprop (body req) ''title'') \<and>
    getprop (body req) ''participants'' = JArr (map JStr ps)"
  then have "\<not> nullish (body req)" by (auto simp: nullish_def)
  with a show "snd (snd (app POST_create_group s lib req)) =
        [Method (OnClient h) ''createGroup''
           [getprop (body req) ''title'', JArr (map (\<lambda>p. JStr (normalize p)) ps)]]"
    by (auto simp: checkClientReady_def try_catch_def create_group_def destructure_def lift_def
          client_call_def array_map_def map_throw_strings Let_def split: sum.splits prod.splits)
next
  assume a: "clientReady s \<and> client s = Some h \<and> truthy (getprop (body req) ''chatId'') \<and>
    getprop (body req) ''participants'' = JArr (map JStr ps) \<and>
    lib [] (Method (OnClient h) ''getChatById'' [getprop (body req) ''chatId'']) = Inr chat \<and>
    \<not> nullish chat"
  then have "\<not> nullish (body req)" by (auto simp: nullish_def)
  with a show "snd (snd (app POST_add_members s lib req)) =
        [Method (OnClient h) ''getChatById'' [getprop (body req) ''chatId''],
         Method (OnObject chat) ''addParticipants'' [JArr (map (\<lambda>p. JStr (normalize p)) ps)]]"
    by (auto simp: checkClientReady_def try_catch_def add_members_def destructure_def lift_def
          client_call_def method_call_def array_map_def map_throw_strings Let_def
          split: sum.splits prod.splits)
next
  assume a: "clientReady s \<and> client s = Some h \<and> truthy (getprop (body req) ''chatId'') \<and>
    truthy (getprop (body req) ''message'') \<and>
    getprop (body req) ''mentions'' = JArr (map JStr ps) \<and>
    lib [] (Method (OnClient h) ''getChatById'' [getprop (body req) ''chatId'']) = Inr chat \<and>
    \<not> nullish chat"
  then have "\<not> nullish (body req)" by (auto simp: nullish_def)
  with a show "snd (snd (app POST_mention_users s lib req)) =
        [Method (OnClient h) ''getChatById'' [getprop (body req) ''chatId''],
         Method (OnObject chat) ''sendMessage''
           [getprop (body req) ''message'',
            JObj [(''mentions'', JArr (map (\<lambda>p. JStr (normalize p)) ps))]]]"
    by (auto simp: checkClientReady_def try_catch_def mention_users_def destructure_def lift_def
          client_call_def method_call_def array_map_def map_throw_strings Let_def
          split: sum.splits prod.splits)
qed

theorem C8_normalize_witness:
  "normalize ''491701'' = ''491701@c.us'' \<and>
   normalize ''491701@c.us'' = ''491701@c.us'' \<and>
   normalize (normalize ''491701'') = normalize ''491701'' \<and>
   snd (snd (app POST_create_group serving (lib_returning JUndefined)
     (request_with (JObj [(''title'', JStr ''Team''),
                          (''participants'', JArr [JStr ''491701'', JStr ''491702@c.us''])])))) =
     [Method (OnClient 0) ''createGroup''
        [JStr ''Team'', JArr [JStr ''491701@c.us'', JStr ''491702@c.us'']]]"
proof -
  let ?req = "request_with (JObj [(''title'', JStr ''Team''),
                          (''participants'', JArr [JStr ''491701'', JStr ''491702@c.us''])])"
  have n1: "normalize ''491701'' = ''491701@c.us''" by (simp add: normalize_def)
  have n2: "normalize ''491702@c.us'' = ''491702@c.us''" by (simp add: normalize_def)
  have n3: "normalize ''491701@c.us'' = ''491701@c.us''" by (simp add: normalize_def)
  have a: "clientReady serving \<and> client serving = Some 0 \<and> truthy (getprop (body ?req) ''title'') \<and>
    getprop (body ?req) ''participants'' = JArr (map JStr [''491701'', ''491702@c.us''])"
    by (simp add: serving_def request_with_def)
  note all = C8_normalize[where str = "''491701''" and ps = "[''491701'', ''491702@c.us'']"
      and s = serving and h = 0 and req = ?req and lib = "lib_returning JUndefined"
      and chat = JUndefined]
  note idem = all[THEN conjunct2, THEN conjunct1]
  note group = all[THEN conjunct2, THEN conjunct2, THEN conjunct2, THEN conjunct2,
      THEN conjunct2, THEN conjunct1, THEN mp, OF a]
  from idem group n1 n2 n3 show ?thesis by (simp add: request_with_def)
qed

subsection \<open>Group-only routes\<close>

text \<open>
  Claim C9. For \<^verbatim>\<open>POST /set-subject\<close>, \<^verbatim>\<open>POST /set-description\<close>,
  \<^verbatim>\<open>POST /leave-group\<close> and \<^verbatim>\<open>GET /group-info/:chatId\<close>: if the chat that
  \<^verbatim>\<open>client.getChatById\<close> resolves has \<^verbatim>\<open>isGroup\<close> false, the response is 400 with
  \<^verbatim>\<open>{"error": "This can only be used in a group"}\<close>, and \<^verbatim>\<open>getChatById\<close> is the only
  call made: \<^verbatim>\<open>setSubject\<close>, \<^verbatim>\<open>setDescription\<close> and \<^verbatim>\<open>leave\<close> are never called, and
  the facade's state is unchanged.
\<close>

theorem C9_group_only:
  assumes "ep = POST_set_subject \<or> ep = POST_set_description \<or> ep = POST_leave_group \<or>
           ep = GET_group_info"
    and "clientReady s"
    and "client s = Some h"
    and "ep \<noteq> GET_group_info \<longrightarrow> \<not> nullish (body req)"
    and "\<forall>fld\<in>set (required ep). \<not> missing req fld"
    and "chatId = (if ep = GET_group_info then param req ''chatId''
                   else getprop (body req) ''chatId'')"
    and "lib [] (Method (OnClient h) ''getChatById'' [chatId]) = Inr chat"
    and "\<not> nullish chat"
    and "\<not> truthy (getprop chat ''isGroup'')"
  shows "app ep s lib req =
           (res_status_json 400 (error_body ''This can only be used in a group''), s,
            [Method (OnClient h) ''getChatById'' [chatId]])"
  using assms
  by (elim disjE)
     (simp_all add: checkClientReady_def try_catch_def set_subject_def set_description_def
        leave_group_def group_info_def destructure_def get_def lift_def read_member_def
        client_call_def Let_def)

theorem C9_group_only_witness:
  "\<not> truthy (getprop private_chat ''isGroup'') \<and>
   app POST_set_subject serving (lib_demo own_message)
       (request_with (JObj [(''chatId'', JStr ''491701@c.us''), (''subject'', JStr ''Plans'')])) =
     (res_status_json 400 (error_body ''This can only be used in a group''), serving,
      [Method (OnClient 0) ''getChatById'' [JStr ''491701@c.us'']])"
proof -
  let ?req = "request_with (JObj [(''chatId'', JStr ''491701@c.us''), (''subject'', JStr ''Plans'')])"
  have 1: "POST_set_subject = POST_set_subject \<or> POST_set_subject = POST_set_description \<or>
           POST_set_subject = POST_leave_group \<or> POST_set_subject = GET_group_info" by simp
  have 2: "clientReady serving" and 3: "client serving = Some 0" by (simp_all add: serving_def)
  have 4: "POST_set_subject \<noteq> GET_group_info \<longrightarrow> \<not> nullish (body ?req)"
    by (simp add: request_with_def nullish_def)
  have 5: "\<forall>fld\<in>set (required POST_set_subject). \<not> missing ?req fld"
    by (simp add: request_with_def)
  have 6: "JStr ''491701@c.us'' = (if POST_set_subject = GET_group_info then param ?req ''chatId''
                   else getprop (body ?req) ''chatId'')"
    by (simp add: request_with_def)
  have 7: "lib_demo own_message [] (Method (OnClient 0) ''getChatById'' [JStr ''491701@c.us'']) =
             Inr private_chat" by simp
  have 8: "\<not> nullish private_chat" by (simp add: private_chat_def nullish_def)
  have 9: "\<not> truthy (getprop private_chat ''isGroup'')" by (simp add: private_chat_def)
  from C9_group_only[where ep = POST_set_subject and s = serving and h = 0 and req = ?req
      and chatId = "JStr ''491701@c.us''" and lib = "lib_demo own_message"
      and chat = private_chat, OF 1 2 3 4 5 6 7 8 9] 9
  show ?thesis by simp
qed

subsection \<open>Own messages only\<close>

text \<open>
  Claim C10. For \<^verbatim>\<open>POST /delete-message\<close> and \<^verbatim>\<open>POST /edit-message\<close>: if the message
  that \<^verbatim>\<open>client.getMessageById\<close> resolves has \<^verbatim>\<open>fromMe\<close> false, the response is 400
  with the error \<^verbatim>\<open>Can only delete own messages\<close> or \<^verbatim>\<open>Can only edit own messages\<close>,
  and \<^verbatim>\<open>getMessageById\<close> is the only call made: the message's \<^verbatim>\<open>delete\<close> or \<^verbatim>\<open>edit\<close>
  is never called. When the message is the user's own and the request has no
  \<^verbatim>\<open>forEveryone\<close> field, \<^verbatim>\<open>delete\<close> is called with \<^verbatim>\<open>true\<close>.
\<close>

theorem C10_own_messages:
  "(clientReady s \<and> client s = Some h \<and> \<not> nullish (body req) \<and>
    (ep = POST_delete_message \<or> ep = POST_edit_message) \<and>
    (\<forall>fld\<in>set (required ep). \<not> missing req fld) \<and>
    lib [] (Method (OnClient h) ''getMessageById'' [getprop (body req) ''messageId'']) = Inr msg \<and>
    \<not> nullish msg \<and> \<not> truthy (getprop msg ''fromMe'') \<longrightarrow>
      app ep s lib req =
        (res_status_json 400
           (error_body (if ep = POST_delete_message then ''Can only delete own messages''
                        else ''Can only edit own messages'')),
         s, [Method (OnClient h) ''getMessageById'' [getprop (body req) ''messageId'']])) \<and>
   (clientReady s \<and> client s = Some h \<and> \<not> nullish (body req) \<and>
    truthy (getprop (body req) ''messageId'') \<and>
    getprop (body req) ''forEveryone'' = JUndefined \<and>
    lib [] (Method (OnClient h) ''getMessageById'' [getprop (body req) ''messageId'']) = Inr msg \<and>
    \<not> nullish msg \<and> truthy (getprop msg ''fromMe'') \<longrightarrow>
      snd (snd (app POST_delete_message s lib req)) =
        [Method (OnClient h) ''getMessageById'' [getprop (body req) ''messageId''],
         Method (OnObject msg) ''delete'' [JBool True]])"
proof (intro conjI impI)
  assume a: "clientReady s \<and> client s = Some h \<and> \<not> nullish (body req) \<and>
    (ep = POST_delete_message \<or> ep = POST_edit_message) \<and>
    (\<forall>fld\<in>set (required ep). \<not> missing req fld) \<and>
    lib [] (Method (OnClient h) ''getMessageById'' [getprop (body req) ''messageId'']) = Inr msg \<and>
    \<not> nullish msg \<and> \<not> truthy (getprop msg ''fromMe'')"
  then consider "ep = POST_delete_message" | "ep = POST_edit_message" by blast
  then show "app ep s lib req =
        (res_status_json 400
           (error_body (if ep = POST_delete_message then ''Can only delete own messages''
                        else ''Can only edit own messages'')),
         s, [Method (OnClient h) ''getMessageById'' [getprop (body req) ''messageId'']])"
  proof cases
    case 1
    with a show ?thesis
      by (simp add: checkClientReady_def try_catch_def delete_message_def destructure_def
            get_def lift_def read_member_def client_call_def Let_def)
  next
    case 2
    with a show ?thesis
      by (simp add: checkClientReady_def try_catch_def edit_message_def destructure_def
            get_def lift_def read_member_def client_call_def Let_def)
  qed
next
  assume "clientReady s \<and> client s = Some h \<and> \<not> nullish (body req) \<and>
    truthy (getprop (body req) ''messageId'') \<and>
    getprop (body req) ''forEveryone'' = JUndefined \<and>
    lib [] (Method (OnClient h) ''getMessageById'' [getprop (body req) ''messageId'']) = Inr msg \<and>
    \<not> nullish msg \<and> truthy (getprop msg ''fromMe'')"
  then show "snd (snd (app POST_delete_message s lib req)) =
        [Method (OnClient h) ''getMessageById'' [getprop (body req) ''messageId''],
         Method (OnObject msg) ''delete'' [JBool True]]"
    by (auto simp: checkClientReady_def try_catch_def delete_message_def destructure_def
          get_def lift_def read_member_def client_call_def method_call_def default_to_def Let_def
          split: sum.splits prod.splits)
qed

theorem C10_own_messages_witness:
  "\<not> truthy (getprop incoming_message ''fromMe'') \<and>
   app POST_edit_message serving (lib_demo incoming_message)
       (request_with (JObj [(''messageId'', JStr ''false_491701@c.us_3A''),
                            (''newText'', JStr ''hello!'')])) =
     (res_status_json 400 (error_body ''Can only edit own messages''), serving,
      [Method (OnClient 0) ''getMessageById'' [JStr ''false_491701@c.us_3A'']]) \<and>
   snd (snd (app POST_delete_message serving (lib_demo own_message)
       (request_with (JObj [(''messageId'', JStr ''true_491701@c.us_3B'')])))) =
     [Method (OnClient 0) ''getMessageById'' [JStr ''true_491701@c.us_3B''],
      Method (OnObject own_message) ''delete'' [JBool True]]"
proof -
  let ?r1 = "request_with (JObj [(''messageId'', JStr ''false_491701@c.us_3A''),
                            (''newText'', JStr ''hello!'')])"
  let ?r2 = "request_with (JObj [(''messageId'', JStr ''true_491701@c.us_3B'')])"
  have f: "\<not> truthy (getprop incoming_message ''fromMe'')" by (simp add: incoming_message_def)
  have a: "clientReady serving \<and> client serving = Some 0 \<and> \<not> nullish (body ?r1) \<and>
    (POST_edit_message = POST_delete_message \<or> POST_edit_message = POST_edit_message) \<and>
    (\<forall>fld\<in>set (required POST_edit_message). \<not> missing ?r1 fld) \<and>
    lib_demo incoming_message [] (Method (OnClient 0) ''getMessageById''
       [getprop (body ?r1) ''messageId'']) = Inr incoming_message \<and>
    \<not> nullish incoming_message \<and> \<not> truthy (getprop incoming_message ''fromMe'')"
    by (simp add: serving_def request_with_def nullish_def incoming_message_def)
  have b: "clientReady serving \<and> client serving = Some 0 \<and> \<not> nullish (body ?r2) \<and>
    truthy (getprop (body ?r2) ''messageId'') \<and>
    getprop (body ?r2) ''forEveryone'' = JUndefined \<and>
    lib_demo own_message [] (Method (OnClient 0) ''getMessageById''
       [getprop (body ?r2) ''messageId'']) = Inr own_message \<and>
    \<not> nullish own_message \<and> truthy (getprop own_message ''fromMe'')"
    by (simp add: serving_def request_with_def nullish_def own_message_def)
  from C10_own_messages[where s = serving and h = 0 and req = ?r1 and ep = POST_edit_message
      and lib = "lib_demo incoming_message" and msg = incoming_message, THEN conjunct1,
      THEN mp, OF a]
  have 1: "app POST_edit_message serving (lib_demo incoming_message) ?r1 =
     (res_status_json 400 (error_body ''Can only edit own messages''), serving,
      [Method (OnClient 0) ''getMessageById'' [getprop (body ?r1) ''messageId'']])"
    by simp
  from C10_own_messages[where s = serving and h = 0 and req = ?r2
      and ep = POST_delete_message and lib = "lib_demo own_message" and msg = own_message,
      THEN conjunct2, THEN mp, OF b]
  have 2: "snd (snd (app POST_delete_message serving (lib_demo own_message) ?r2)) =
     [Method (OnClient 0) ''getMessageById'' [getprop (body ?r2) ''messageId''],
      Method (OnObject own_message) ''delete'' [JBool True]]"
    by simp
  from 1 2 f show ?thesis by (simp add: request_with_def)
qed

end
